theory Spec2Isabelle
  imports Main "HOL-Library.Sublist" "HOL-Library.AList"
begin

section \<open>The service worker of the Meme Coin Analyzer (sw.js)\<close>

text \<open>
  The worker is embedded shallowly. Strings are character lists. A request URL is the
  string \<open>request.url\<close>. Everything the worker does beyond computing a value (cache
  storage, the network, the clock, logging) is explicit: the handlers are functions on
  a worker state, and whatever the platform decides (the reply of the network, a storage
  operation that rejects, the reading of the clock) is read from an environment.
\<close>

subsection \<open>Constants\<close>

definition CACHE_NAME :: string where
  "CACHE_NAME = ''meme-coin-analyzer-v1.0.0''"

definition DATA_CACHE_NAME :: string where
  "DATA_CACHE_NAME = ''meme-coin-analyzer-data-v1.0.0''"

definition STATIC_CACHE_URLS :: "string list" where
  "STATIC_CACHE_URLS =
     [''/'', ''/index.html'', ''/manifest.json'',
      ''/assets/icons/icon-192x192.png'', ''/assets/icons/icon-512x512.png'']"

text \<open>
  Each entry of \<open>API_CACHE_PATTERNS\<close> is a regular expression of the form
  \<open>^literal\<close> (an anchor followed by escaped characters only, no flags), so
  \<open>pattern.test(url)\<close> holds exactly when the literal is a prefix of the URL. A pattern
  is kept as its literal.
\<close>

definition API_CACHE_PATTERNS :: "string list" where
  "API_CACHE_PATTERNS =
     [''https://api.dexscreener.com'', ''https://api.etherscan.io'',
      ''https://api.coingecko.com'', ''https://api.twitter.com'']"

subsection \<open>Strategy classifier\<close>

definition pattern_test :: "string \<Rightarrow> string \<Rightarrow> bool" where
  "pattern_test pattern u = prefix pattern u"

text \<open>\<open>String.prototype.includes\<close>: the needle occurs at some position of the string.\<close>

fun str_includes :: "string \<Rightarrow> string \<Rightarrow> bool" where
  "str_includes [] needle = (needle = [])"
| "str_includes (c # cs) needle = (prefix needle (c # cs) \<or> str_includes cs needle)"

definition isAPIRequest :: "string \<Rightarrow> bool" where
  "isAPIRequest u = list_ex (\<lambda>pattern. pattern_test pattern u) API_CACHE_PATTERNS"

definition isStaticAsset :: "string \<Rightarrow> bool" where
  "isStaticAsset u =
     (str_includes u ''/assets/'' \<or> str_includes u ''/icons/'' \<or> str_includes u ''.css'' \<or>
      str_includes u ''.js'' \<or> str_includes u ''.png'' \<or> str_includes u ''.jpg'' \<or>
      str_includes u ''.svg'')"

datatype strategy = Static | Api | Default

text \<open>The three-way choice of the fetch listener: the api test comes first.\<close>

definition classify :: "string \<Rightarrow> strategy" where
  "classify u =
     (if isAPIRequest u then Api else if isStaticAsset u then Static else Default)"

text \<open>
  The classification as the specification words it, for comparison with \<open>classify\<close>:
  the path of the URL (what follows the authority, up to a query or fragment) has a
  segment \<open>assets\<close> or \<open>icons\<close>, or ends in a style, script or image extension.
\<close>

fun drop_until_slash :: "string \<Rightarrow> string" where
  "drop_until_slash [] = []"
| "drop_until_slash (c # cs) = (if c = CHR ''/'' then c # cs else drop_until_slash cs)"

fun after_scheme :: "string \<Rightarrow> string" where
  "after_scheme (a # b # c # cs) =
     (if a = CHR '':'' \<and> b = CHR ''/'' \<and> c = CHR ''/'' then cs
      else after_scheme (b # c # cs))"
| "after_scheme cs = []"

definition url_path :: "string \<Rightarrow> string" where
  "url_path u =
     takeWhile (\<lambda>c. c \<noteq> CHR ''?'' \<and> c \<noteq> CHR ''#'') (drop_until_slash (after_scheme u))"

fun path_segments :: "string \<Rightarrow> string list" where
  "path_segments [] = [[]]"
| "path_segments (c # cs) =
     (if c = CHR ''/'' then [] # path_segments cs
      else (case path_segments cs of
              seg # segs \<Rightarrow> (c # seg) # segs
            | [] \<Rightarrow> [[c]]))"

definition spec_static :: "string \<Rightarrow> bool" where
  "spec_static u =
     (''assets'' \<in> set (path_segments (url_path u)) \<or>
      ''icons'' \<in> set (path_segments (url_path u)) \<or>
      list_ex (\<lambda>ext. suffix ext (url_path u)) [''.css'', ''.js'', ''.png'', ''.jpg'', ''.svg''])"

subsection \<open>Values, requests and responses\<close>

text \<open>
  A JavaScript value as the worker handles it (message payloads, parsed JSON). Numbers
  are the integers; the worker only stores and compares them.
\<close>

datatype jsval =
    JUndefined
  | JNull
  | JBool bool
  | JNum int
  | JStr string
  | JArr "jsval list"
  | JObj "(string \<times> jsval) list"

datatype error = TypeError | FetchRejected | HttpError nat | StorageFault

text \<open>
  Reading a property. \<open>null\<close> and \<open>undefined\<close> throw; the properties the worker reads
  (\<open>action\<close>, \<open>data\<close>, \<open>synced\<close>, \<open>contractAddress\<close>) exist on no primitive and on no
  array, so every value but an object yields \<open>undefined\<close>. Destructuring
  \<open>const { action, data } = v\<close> reads the two properties in turn.
\<close>

fun get_prop :: "jsval \<Rightarrow> string \<Rightarrow> error + jsval" where
  "get_prop JUndefined p = Inl TypeError"
| "get_prop JNull p = Inl TypeError"
| "get_prop (JObj kvs) p = Inr (case map_of kvs p of Some v \<Rightarrow> v | None \<Rightarrow> JUndefined)"
| "get_prop v p = Inr JUndefined"

text \<open>Assigning a property: on an object it is set, on a primitive nothing happens.\<close>

fun set_prop :: "jsval \<Rightarrow> string \<Rightarrow> jsval \<Rightarrow> jsval" where
  "set_prop (JObj kvs) p v = JObj (AList.update p v kvs)"
| "set_prop w p v = w"

fun truthy :: "jsval \<Rightarrow> bool" where
  "truthy JUndefined = False"
| "truthy JNull = False"
| "truthy (JBool b) = b"
| "truthy (JNum n) = (n \<noteq> 0)"
| "truthy (JStr s) = (s \<noteq> [])"
| "truthy v = True"

text \<open>The items a \<open>for ... of\<close> loop visits; a value that is not iterable throws.\<close>

fun js_iter :: "jsval \<Rightarrow> error + jsval list" where
  "js_iter (JArr xs) = Inr xs"
| "js_iter (JStr s) = Inr (map (\<lambda>c. JStr [c]) s)"
| "js_iter v = Inl TypeError"

text \<open>\<open>v.push(x)\<close> and \<open>v.filter(...)\<close> exist on arrays only.\<close>

fun js_array :: "jsval \<Rightarrow> error + jsval list" where
  "js_array (JArr xs) = Inr xs"
| "js_array v = Inl TypeError"

text \<open>
  The value that \<open>JSON.parse\<close> reads back from \<open>JSON.stringify(v)\<close>: inside an array
  \<open>undefined\<close> becomes \<open>null\<close>, inside an object a property that is \<open>undefined\<close> is
  left out.
\<close>

fun json_value :: "jsval \<Rightarrow> jsval" where
  "json_value (JArr xs) = JArr (map (\<lambda>x. if x = JUndefined then JNull else json_value x) xs)"
| "json_value (JObj kvs) =
     JObj (map (\<lambda>(k, v). (k, json_value v)) (filter (\<lambda>(k, v). v \<noteq> JUndefined) kvs))"
| "json_value v = v"

text \<open>A response body: none, a text, or the text \<open>JSON.stringify(v)\<close> of a value.\<close>

datatype body = NoBody | Text string | JsonText jsval

record response =
  status :: nat
  statusText :: string
  headers :: "(string \<times> string) list"
  body :: body

record request =
  url :: string
  req_method :: string
  req_headers :: "(string \<times> string) list"

definition ok :: "response \<Rightarrow> bool" where
  "ok r = (200 \<le> status r \<and> status r \<le> 299)"

text \<open>
  Header names stand for their case-normalised form, so \<open>get\<close> and \<open>set\<close> compare
  them exactly.
\<close>

definition headers_get :: "(string \<times> string) list \<Rightarrow> string \<Rightarrow> string option" where
  "headers_get h name = map_of h name"

definition headers_set :: "(string \<times> string) list \<Rightarrow> string \<Rightarrow> string \<Rightarrow> (string \<times> string) list" where
  "headers_set h name v = AList.update name v h"

subsection \<open>\<open>parseInt\<close>\<close>

text \<open>
  The built-in \<open>parseInt(string)\<close> with no radix: leading white space is skipped, a sign
  is read, a prefix \<open>0x\<close> or \<open>0X\<close> selects radix 16, and the longest run of digits of
  the radix is the value; no digit gives \<open>NaN\<close>, here \<open>None\<close>. The value is the exact
  integer.
\<close>

definition js_whitespace :: "char \<Rightarrow> bool" where
  "js_whitespace c = (c \<in> set [CHR 0x09, CHR 0x0A, CHR 0x0B, CHR 0x0C, CHR 0x0D, CHR 0x20, CHR 0xA0])"

definition digit_value :: "char \<Rightarrow> nat option" where
  "digit_value c = map_of
     [(CHR ''0'', 0), (CHR ''1'', 1), (CHR ''2'', 2), (CHR ''3'', 3), (CHR ''4'', 4),
      (CHR ''5'', 5), (CHR ''6'', 6), (CHR ''7'', 7), (CHR ''8'', 8), (CHR ''9'', 9),
      (CHR ''a'', 10), (CHR ''b'', 11), (CHR ''c'', 12), (CHR ''d'', 13), (CHR ''e'', 14),
      (CHR ''f'', 15), (CHR ''A'', 10), (CHR ''B'', 11), (CHR ''C'', 12), (CHR ''D'', 13),
      (CHR ''E'', 14), (CHR ''F'', 15)] c"

definition is_digit :: "nat \<Rightarrow> char \<Rightarrow> bool" where
  "is_digit radix c = (case digit_value c of Some d \<Rightarrow> d < radix | None \<Rightarrow> False)"

definition parse_digits :: "nat \<Rightarrow> string \<Rightarrow> int option" where
  "parse_digits radix s =
     (let ds = takeWhile (is_digit radix) s in
      if ds = [] then None
      else Some (int (foldl (\<lambda>acc c. acc * radix + (case digit_value c of Some d \<Rightarrow> d | None \<Rightarrow> 0)) 0 ds)))"

fun read_sign :: "string \<Rightarrow> int \<times> string" where
  "read_sign [] = (1, [])"
| "read_sign (c # cs) =
     (if c = CHR ''-'' then (- 1, cs) else if c = CHR ''+'' then (1, cs) else (1, c # cs))"

fun read_radix :: "string \<Rightarrow> nat \<times> string" where
  "read_radix (a # b # cs) =
     (if a = CHR ''0'' \<and> (b = CHR ''x'' \<or> b = CHR ''X'') then (16, cs) else (10, a # b # cs))"
| "read_radix cs = (10, cs)"

definition parseInt :: "string \<Rightarrow> int option" where
  "parseInt str =
     (case read_sign (dropWhile js_whitespace str) of
        (sign, s1) \<Rightarrow>
          (case read_radix s1 of
             (radix, s2) \<Rightarrow> map_option (\<lambda>n. sign * n) (parse_digits radix s2)))"

subsection \<open>The platform: environment and worker state\<close>

text \<open>
  The operations on cache storage and on local storage that may reject. The environment
  says which of them do (a quota that is exceeded, storage that is unavailable). A cache is named by its cache name, an entry by its request URL.
\<close>

datatype storage_op =
    OpOpen string
  | OpKeys string
  | OpMatch string string
  | OpPut string string
  | OpDelete string string
  | OpAddAll string
  | OpMatchAny string
  | OpCachesKeys
  | OpSetItem string

datatype net_result = Rejected | Replied response

text \<open>
  \<open>now\<close> is the reading of \<open>Date.now()\<close>, \<open>net\<close> the outcome of \<open>fetch\<close> for a method,
  a URL and a body, \<open>fault\<close> the storage operations that reject, and \<open>sync_supported\<close>
  whether the registration offers background sync.
\<close>

record env =
  now :: int
  net :: "string \<Rightarrow> string \<Rightarrow> body \<Rightarrow> net_result"
  fault :: "storage_op \<Rightarrow> bool"
  sync_supported :: bool

datatype log_entry = Info string | Error string

text \<open>
  A cache is the list of its entries, oldest first, one entry per URL; cache storage is
  the list of the named caches in the order of their creation. Local storage holds, for
  each key, the value that its stored JSON text parses to. The remaining fields record what the
  worker did: console lines, the number of network calls, calls of \<open>skipWaiting\<close>,
  registered sync tags, messages posted on a reply port, and the rejections of promises
  that nothing handles.
\<close>

type_synonym cache = "(string \<times> response) list"

record sw_state =
  caches :: "(string \<times> cache) list"
  localStorage :: "(string \<times> jsval) list"
  console :: "log_entry list"
  net_calls :: nat
  skip_waiting :: nat
  sync_tags :: "string list"
  posted :: "jsval list"
  unhandled :: "error list"

text \<open>
  A piece of worker code is a function from the state to its outcome, a thrown error
  (a rejected promise) or a value, and the state it leaves. An asynchronous function
  runs to its end without interleaving.
\<close>

type_synonym 'a task = "sw_state \<Rightarrow> (error + 'a) \<times> sw_state"

definition ret :: "'a \<Rightarrow> 'a task" where
  "ret x = (\<lambda>s. (Inr x, s))"

definition throw :: "error \<Rightarrow> 'a task" where
  "throw err = (\<lambda>s. (Inl err, s))"

definition bind :: "'a task \<Rightarrow> ('a \<Rightarrow> 'b task) \<Rightarrow> 'b task" where
  "bind m f = (\<lambda>s. case m s of (Inl err, s') \<Rightarrow> (Inl err, s') | (Inr x, s') \<Rightarrow> f x s')"

definition try_catch :: "'a task \<Rightarrow> (error \<Rightarrow> 'a task) \<Rightarrow> 'a task" where
  "try_catch m handler =
     (\<lambda>s. case m s of (Inl err, s') \<Rightarrow> handler err s' | (Inr x, s') \<Rightarrow> (Inr x, s'))"

definition lift :: "error + 'a \<Rightarrow> 'a task" where
  "lift r = (case r of Inl err \<Rightarrow> throw err | Inr x \<Rightarrow> ret x)"

text \<open>
  A promise that is started and not awaited: the caller goes on, and a rejection is
  left unhandled.
\<close>

definition detach :: "'a task \<Rightarrow> unit task" where
  "detach m =
     (\<lambda>s. case m s of
             (Inl err, s') \<Rightarrow> (Inr (), s'\<lparr>unhandled := unhandled s' @ [err]\<rparr>)
           | (Inr x, s') \<Rightarrow> (Inr (), s'))"

definition console_log :: "string \<Rightarrow> unit task" where
  "console_log msg = (\<lambda>s. (Inr (), s\<lparr>console := console s @ [Info msg]\<rparr>))"

definition console_error :: "string \<Rightarrow> unit task" where
  "console_error msg = (\<lambda>s. (Inr (), s\<lparr>console := console s @ [Error msg]\<rparr>))"

definition guard :: "env \<Rightarrow> storage_op \<Rightarrow> unit task" where
  "guard e op = (if fault e op then throw StorageFault else ret ())"

definition fetch :: "env \<Rightarrow> string \<Rightarrow> string \<Rightarrow> body \<Rightarrow> response task" where
  "fetch e m u b =
     (\<lambda>s. case net e m u b of
             Rejected \<Rightarrow> (Inl FetchRejected, s\<lparr>net_calls := Suc (net_calls s)\<rparr>)
           | Replied r \<Rightarrow> (Inr r, s\<lparr>net_calls := Suc (net_calls s)\<rparr>))"

definition skipWaiting :: "unit task" where
  "skipWaiting = (\<lambda>s. (Inr (), s\<lparr>skip_waiting := Suc (skip_waiting s)\<rparr>))"

subsection \<open>Cache storage\<close>

definition the_cache :: "sw_state \<Rightarrow> string \<Rightarrow> cache" where
  "the_cache s name = (case map_of (caches s) name of Some c \<Rightarrow> c | None \<Rightarrow> [])"

definition put_entry :: "string \<Rightarrow> response \<Rightarrow> cache \<Rightarrow> cache" where
  "put_entry k r c = AList.delete k c @ [(k, r)]"

text \<open>\<open>caches.open(name)\<close> creates the cache when there is none; the handle is the name.\<close>

definition caches_open :: "env \<Rightarrow> string \<Rightarrow> string task" where
  "caches_open e name =
     bind (guard e (OpOpen name)) (\<lambda>_ s.
       (Inr name,
        if map_of (caches s) name = None then s\<lparr>caches := caches s @ [(name, [])]\<rparr> else s))"

text \<open>
  The Cache API never stores a partial response or a response that varies on
  everything: \<open>cache.put\<close> rejects with a \<open>TypeError\<close>, before it touches storage, when
  the status is 206 or when the \<open>Vary\<close> header lists \<open>*\<close>; \<open>cache.addAll\<close> rejects for
  such a reply as it does for a reply that is not 2xx.
\<close>

fun split_commas :: "string \<Rightarrow> string list" where
  "split_commas [] = [[]]"
| "split_commas (c # cs) =
     (if c = CHR '','' then [] # split_commas cs
      else (case split_commas cs of
              v # vs \<Rightarrow> (c # v) # vs
            | [] \<Rightarrow> [[c]]))"

definition trim_ws :: "string \<Rightarrow> string" where
  "trim_ws v =
     rev (dropWhile (\<lambda>c. c = CHR 0x20 \<or> c = CHR 0x09)
            (rev (dropWhile (\<lambda>c. c = CHR 0x20 \<or> c = CHR 0x09) v)))"

definition cache_refuses :: "response \<Rightarrow> bool" where
  "cache_refuses r =
     (status r = 206 \<or>
      (case headers_get (headers r) ''Vary'' of
         None \<Rightarrow> False
       | Some v \<Rightarrow> ''*'' \<in> set (map trim_ws (split_commas v))))"

definition cache_put :: "env \<Rightarrow> string \<Rightarrow> string \<Rightarrow> response \<Rightarrow> unit task" where
  "cache_put e name k r =
     (if cache_refuses r then throw TypeError
      else bind (guard e (OpPut name k)) (\<lambda>_ s.
             (Inr (), s\<lparr>caches := AList.map_entry name (put_entry k r) (caches s)\<rparr>)))"

definition cache_match :: "env \<Rightarrow> string \<Rightarrow> string \<Rightarrow> response option task" where
  "cache_match e name k =
     bind (guard e (OpMatch name k)) (\<lambda>_ s. (Inr (map_of (the_cache s name) k), s))"

definition cache_delete :: "env \<Rightarrow> string \<Rightarrow> string \<Rightarrow> unit task" where
  "cache_delete e name k =
     bind (guard e (OpDelete name k)) (\<lambda>_ s.
       (Inr (), s\<lparr>caches := AList.map_entry name (AList.delete k) (caches s)\<rparr>))"

definition cache_keys :: "env \<Rightarrow> string \<Rightarrow> string list task" where
  "cache_keys e name =
     bind (guard e (OpKeys name)) (\<lambda>_ s. (Inr (map fst (the_cache s name)), s))"

text \<open>\<open>caches.match(request)\<close> searches every cache, in the order of creation.\<close>

fun first_match :: "cache list \<Rightarrow> string \<Rightarrow> response option" where
  "first_match [] k = None"
| "first_match (c # cs) k =
     (case map_of c k of Some r \<Rightarrow> Some r | None \<Rightarrow> first_match cs k)"

definition caches_match :: "env \<Rightarrow> string \<Rightarrow> response option task" where
  "caches_match e k =
     bind (guard e (OpMatchAny k)) (\<lambda>_ s. (Inr (first_match (map snd (caches s)) k), s))"

definition caches_keys :: "env \<Rightarrow> string list task" where
  "caches_keys e = bind (guard e OpCachesKeys) (\<lambda>_ s. (Inr (map fst (caches s)), s))"

text \<open>
  \<open>cache.addAll(urls)\<close> fetches every URL and stores the replies only when each fetch
  replied with a 2xx status that the cache does not refuse; otherwise it rejects and
  stores nothing.
\<close>

fun replied_ok :: "net_result \<Rightarrow> bool" where
  "replied_ok Rejected = False"
| "replied_ok (Replied r) = (ok r \<and> \<not> cache_refuses r)"

fun put_replies :: "(string \<times> net_result) list \<Rightarrow> cache \<Rightarrow> cache" where
  "put_replies [] c = c"
| "put_replies ((u, Replied r) # rest) c = put_replies rest (put_entry u r c)"
| "put_replies ((u, Rejected) # rest) c = put_replies rest c"

definition cache_addAll :: "env \<Rightarrow> string \<Rightarrow> string list \<Rightarrow> unit task" where
  "cache_addAll e name urls =
     (\<lambda>s. let s1 = s\<lparr>net_calls := net_calls s + length urls\<rparr>;
               replies = map (\<lambda>u. (u, net e ''GET'' u NoBody)) urls
           in if \<not> list_all (\<lambda>(u, r). replied_ok r) replies then (Inl TypeError, s1)
              else if fault e (OpAddAll name) then (Inl StorageFault, s1)
              else (Inr (), s1\<lparr>caches := AList.map_entry name (put_replies replies) (caches s1)\<rparr>))"

subsection \<open>Local storage\<close>

definition getItem :: "string \<Rightarrow> jsval option task" where
  "getItem k = (\<lambda>s. (Inr (map_of (localStorage s) k), s))"

definition setItem :: "env \<Rightarrow> string \<Rightarrow> jsval \<Rightarrow> unit task" where
  "setItem e k v =
     bind (guard e (OpSetItem k)) (\<lambda>_ s.
       (Inr (), s\<lparr>localStorage := AList.update k v (localStorage s)\<rparr>))"

text \<open>\<open>JSON.parse(localStorage.getItem(k) || '[]')\<close>\<close>

definition parse_or_empty :: "jsval option \<Rightarrow> jsval" where
  "parse_or_empty stored = (case stored of None \<Rightarrow> JArr [] | Some v \<Rightarrow> v)"

subsection \<open>Install\<close>

text \<open>
  The promise chain handed to \<open>event.waitUntil\<close>: its outcome is what the platform
  sees of the install step.
\<close>

definition on_install :: "env \<Rightarrow> unit task" where
  "on_install e =
     bind (console_log ''[SW] Installing service worker...'') (\<lambda>_.
     try_catch
       (bind (caches_open e CACHE_NAME) (\<lambda>cache.
        bind (console_log ''[SW] Caching static assets'') (\<lambda>_.
        bind (cache_addAll e cache STATIC_CACHE_URLS) (\<lambda>_.
        bind (console_log ''[SW] Static assets cached successfully'') (\<lambda>_.
        skipWaiting)))))
       (\<lambda>error. console_error ''[SW] Failed to cache static assets:''))"

subsection \<open>Fetch interceptor\<close>

definition addOfflineHeaders :: "response \<Rightarrow> response" where
  "addOfflineHeaders r =
     \<lparr>status = status r, statusText = statusText r,
      headers =
        headers_set
          (headers_set (headers_set (headers r) ''X-Served-By'' ''ServiceWorker'')
             ''X-Cache-Status'' ''HIT'')
          ''X-Offline-Mode'' ''true'',
      body = body r\<rparr>"

definition createOfflineFallback :: "env \<Rightarrow> request \<Rightarrow> response" where
  "createOfflineFallback e rq =
     \<lparr>status = 200, statusText = [],
      headers = [(''Content-Type'', ''application/json''), (''X-Offline-Mode'', ''true'')],
      body = JsonText (JObj
        [(''error'', JStr ''You are offline. This is cached or demo data.''),
         (''offline'', JBool True),
         (''timestamp'', JNum (now e)),
         (''url'', JStr (url rq))])\<rparr>"

definition handleAPIRequest :: "env \<Rightarrow> request \<Rightarrow> response task" where
  "handleAPIRequest e rq =
     try_catch
       (bind (fetch e (req_method rq) (url rq) NoBody) (\<lambda>networkResponse.
          if ok networkResponse then
            bind (caches_open e DATA_CACHE_NAME) (\<lambda>cache.
            bind (cache_put e cache (url rq) networkResponse) (\<lambda>_.
            ret networkResponse))
          else throw (HttpError (status networkResponse))))
       (\<lambda>error.
          bind (console_log ''[SW] Network request failed, trying cache:'') (\<lambda>_.
          bind (caches_match e (url rq)) (\<lambda>cachedResponse.
            case cachedResponse of
              Some r \<Rightarrow> ret (addOfflineHeaders r)
            | None \<Rightarrow> ret (createOfflineFallback e rq))))"

definition plain_response :: "string \<Rightarrow> nat \<Rightarrow> response" where
  "plain_response txt st =
     \<lparr>status = st, statusText = [],
      headers = [(''Content-Type'', ''text/plain;charset=UTF-8'')], body = Text txt\<rparr>"

definition handleStaticRequest :: "env \<Rightarrow> request \<Rightarrow> response task" where
  "handleStaticRequest e rq =
     try_catch
       (bind (caches_match e (url rq)) (\<lambda>cachedResponse.
          case cachedResponse of
            Some r \<Rightarrow> ret r
          | None \<Rightarrow>
              bind (fetch e (req_method rq) (url rq) NoBody) (\<lambda>networkResponse.
              bind (if ok networkResponse then
                      bind (caches_open e CACHE_NAME) (\<lambda>cache.
                      cache_put e cache (url rq) networkResponse)
                    else ret ()) (\<lambda>_.
              ret networkResponse))))
       (\<lambda>error.
          bind (console_log ''[SW] Static asset request failed:'') (\<lambda>_.
          ret (plain_response ''Asset not available offline'' 404)))"

text \<open>\<open>request.headers.get('accept')?.includes('text/html')\<close>\<close>

definition accepts_html :: "request \<Rightarrow> bool" where
  "accepts_html rq =
     (case headers_get (req_headers rq) ''accept'' of
        None \<Rightarrow> False
      | Some v \<Rightarrow> str_includes v ''text/html'')"

text \<open>
  The default handler may resolve with \<open>undefined\<close>, here \<open>None\<close>, when the shell page
  is not cached.
\<close>

definition handleDefaultRequest :: "env \<Rightarrow> request \<Rightarrow> response option task" where
  "handleDefaultRequest e rq =
     try_catch
       (bind (if accepts_html rq then caches_match e (url rq) else ret None) (\<lambda>cachedResponse.
          case cachedResponse of
            Some r \<Rightarrow> ret (Some r)
          | None \<Rightarrow>
              bind (fetch e (req_method rq) (url rq) NoBody) (\<lambda>networkResponse.
              bind (if ok networkResponse then
                      bind (caches_open e CACHE_NAME) (\<lambda>cache.
                      cache_put e cache (url rq) networkResponse)
                    else ret ()) (\<lambda>_.
              ret (Some networkResponse)))))
       (\<lambda>error.
          bind (caches_match e (url rq)) (\<lambda>cachedResponse.
            case cachedResponse of
              Some r \<Rightarrow> ret (Some r)
            | None \<Rightarrow>
                if accepts_html rq then caches_match e ''/index.html''
                else ret (Some (plain_response ''Not available offline'' 404))))"

text \<open>
  The fetch listener: a request that is not a GET is left alone (\<open>None\<close>: the listener
  does not respond); otherwise the handler of the request's class answers.
\<close>

definition respond :: "env \<Rightarrow> request \<Rightarrow> response option task" where
  "respond e rq =
     (case classify (url rq) of
        Api \<Rightarrow> bind (handleAPIRequest e rq) (\<lambda>r. ret (Some r))
      | Static \<Rightarrow> bind (handleStaticRequest e rq) (\<lambda>r. ret (Some r))
      | Default \<Rightarrow> handleDefaultRequest e rq)"

definition on_fetch :: "env \<Rightarrow> request \<Rightarrow> response option task option" where
  "on_fetch e rq = (if req_method rq \<noteq> ''GET'' then None else Some (respond e rq))"

subsection \<open>Background sync\<close>

fun outcomes_loop :: "env \<Rightarrow> jsval list \<Rightarrow> unit task" where
  "outcomes_loop e [] = ret ()"
| "outcomes_loop e (outcome # rest) =
     bind (try_catch
             (bind (fetch e ''POST'' ''/api/sync/outcomes'' (JsonText outcome)) (\<lambda>_.
              bind (lift (get_prop outcome ''contractAddress'')) (\<lambda>_.
              console_log ''[SW] Outcome synced:'')))
             (\<lambda>error. console_error ''[SW] Failed to sync outcome:'')) (\<lambda>_.
     outcomes_loop e rest)"

definition syncTokenOutcomes :: "env \<Rightarrow> unit task" where
  "syncTokenOutcomes e =
     try_catch
       (bind (console_log ''[SW] Syncing token outcomes...'') (\<lambda>_.
        bind (getItem ''pendingOutcomes'') (\<lambda>stored.
        bind (lift (js_iter (parse_or_empty stored))) (\<lambda>pendingOutcomes.
        bind (outcomes_loop e pendingOutcomes) (\<lambda>_.
        setItem e ''pendingOutcomes'' (JArr []))))))
       (\<lambda>error. console_error ''[SW] Background sync failed:'')"

text \<open>
  \<open>analysisHistory.filter(item => !item.synced)\<close> keeps references to the items of the
  history, so \<open>analysis.synced = true\<close> changes the history that is written back. The
  filter reads \<open>synced\<close> of every item before the first POST; \<open>unsynced_flags\<close> is that
  pass, and the loop then walks the history with the flags.
\<close>

fun unsynced_flags :: "jsval list \<Rightarrow> error + bool list" where
  "unsynced_flags [] = Inr []"
| "unsynced_flags (item # rest) =
     (case get_prop item ''synced'' of
        Inl err \<Rightarrow> Inl err
      | Inr v \<Rightarrow>
          (case unsynced_flags rest of
             Inl err \<Rightarrow> Inl err
           | Inr flags \<Rightarrow> Inr ((\<not> truthy v) # flags)))"

fun analysis_loop :: "env \<Rightarrow> (jsval \<times> bool) list \<Rightarrow> jsval list task" where
  "analysis_loop e [] = ret []"
| "analysis_loop e ((analysis, unsynced) # rest) =
     bind (if unsynced then
             try_catch
               (bind (fetch e ''POST'' ''/api/sync/analysis'' (JsonText analysis)) (\<lambda>_.
                ret (set_prop analysis ''synced'' (JBool True))))
               (\<lambda>error.
                bind (console_error ''[SW] Failed to sync analysis:'') (\<lambda>_. ret analysis))
           else ret analysis) (\<lambda>analysis'.
     bind (analysis_loop e rest) (\<lambda>rest'.
     ret (analysis' # rest')))"

definition syncAnalysisData :: "env \<Rightarrow> unit task" where
  "syncAnalysisData e =
     try_catch
       (bind (console_log ''[SW] Syncing analysis data...'') (\<lambda>_.
        bind (getItem ''memeAnalysisHistory'') (\<lambda>stored.
        bind (lift (js_array (parse_or_empty stored))) (\<lambda>analysisHistory.
        bind (lift (unsynced_flags analysisHistory)) (\<lambda>flags.
        bind (analysis_loop e (zip analysisHistory flags)) (\<lambda>analysisHistory'.
        setItem e ''memeAnalysisHistory'' (json_value (JArr analysisHistory'))))))))
       (\<lambda>error. console_error ''[SW] Analysis sync failed:'')"

definition on_sync :: "env \<Rightarrow> string \<Rightarrow> unit task" where
  "on_sync e tag =
     bind (console_log ''[SW] Background sync triggered:'') (\<lambda>_.
     bind (if tag = ''token-outcome-sync'' then syncTokenOutcomes e else ret ()) (\<lambda>_.
     if tag = ''analysis-data-sync'' then syncAnalysisData e else ret ()))"

subsection \<open>Control channel\<close>

text \<open>
  The text a value takes inside a template literal. Only a string keeps its characters
  here; the other forms are the fixed texts of the language, a number its decimal
  digits.
\<close>

fun show_nat :: "nat \<Rightarrow> string" where
  "show_nat n =
     (if n < 10 then [''0123456789'' ! n]
      else show_nat (n div 10) @ [''0123456789'' ! (n mod 10)])"

fun join_comma :: "string list \<Rightarrow> string" where
  "join_comma [] = []"
| "join_comma [x] = x"
| "join_comma (x # y # rest) = x @ '','' @ join_comma (y # rest)"

fun js_to_string :: "jsval \<Rightarrow> string" where
  "js_to_string JUndefined = ''undefined''"
| "js_to_string JNull = ''null''"
| "js_to_string (JBool b) = (if b then ''true'' else ''false'')"
| "js_to_string (JNum n) = (if n < 0 then CHR ''-'' # show_nat (nat (- n)) else show_nat (nat n))"
| "js_to_string (JStr s) = s"
| "js_to_string (JArr xs) =
     join_comma (map (\<lambda>x. if x = JUndefined \<or> x = JNull then [] else js_to_string x) xs)"
| "js_to_string (JObj kvs) = ''[object Object]''"

definition cacheAnalysisData :: "env \<Rightarrow> jsval \<Rightarrow> unit task" where
  "cacheAnalysisData e analysisData =
     try_catch
       (bind (caches_open e DATA_CACHE_NAME) (\<lambda>cache.
        bind (lift (get_prop analysisData ''contractAddress'')) (\<lambda>contractAddress.
        bind (cache_put e cache (''/analysis/'' @ js_to_string contractAddress)
                \<lparr>status = 200, statusText = [],
                 headers = [(''Content-Type'', ''application/json'')],
                 body = JsonText analysisData\<rparr>) (\<lambda>_.
        bind (lift (get_prop analysisData ''contractAddress'')) (\<lambda>_.
        console_log ''[SW] Analysis data cached:'')))))
       (\<lambda>error. console_error ''[SW] Failed to cache analysis:'')"

definition sync_register :: "env \<Rightarrow> string \<Rightarrow> unit task" where
  "sync_register e tag =
     (if sync_supported e then (\<lambda>s. (Inr (), s\<lparr>sync_tags := sync_tags s @ [tag]\<rparr>))
      else throw TypeError)"

definition queueOutcomeSync :: "env \<Rightarrow> jsval \<Rightarrow> unit task" where
  "queueOutcomeSync e outcomeData =
     try_catch
       (bind (getItem ''pendingOutcomes'') (\<lambda>stored.
        bind (lift (js_array (parse_or_empty stored))) (\<lambda>pending.
        bind (setItem e ''pendingOutcomes'' (json_value (JArr (pending @ [outcomeData])))) (\<lambda>_.
        bind (sync_register e ''token-outcome-sync'') (\<lambda>_.
        bind (lift (get_prop outcomeData ''contractAddress'')) (\<lambda>_.
        console_log ''[SW] Outcome queued for sync:''))))))
       (\<lambda>error. console_error ''[SW] Failed to queue outcome:'')"

fun count_keys :: "env \<Rightarrow> string list \<Rightarrow> (string \<times> jsval) list \<Rightarrow> (string \<times> jsval) list task" where
  "count_keys e [] info = ret info"
| "count_keys e (cacheName # rest) info =
     bind (caches_open e cacheName) (\<lambda>cache.
     bind (cache_keys e cache) (\<lambda>keys.
     count_keys e rest (AList.update cacheName (JNum (int (length keys))) info)))"

definition getCacheInfo :: "env \<Rightarrow> jsval task" where
  "getCacheInfo e =
     bind (caches_keys e) (\<lambda>cacheNames.
     bind (count_keys e cacheNames
             [(''caches'', JNum (int (length cacheNames))),
              (''version'', JStr CACHE_NAME),
              (''timestamp'', JNum (now e))]) (\<lambda>info.
     ret (JObj info)))"

text \<open>
  A message event: its payload and the number of reply ports that came with it.
  \<open>event.ports[0].postMessage(info)\<close> throws when there is no port.
\<close>

record message_event =
  data :: jsval
  ports :: nat

definition post_reply :: "message_event \<Rightarrow> jsval \<Rightarrow> unit task" where
  "post_reply ev v =
     (if ports ev = 0 then throw TypeError
      else (\<lambda>s. (Inr (), s\<lparr>posted := posted s @ [v]\<rparr>)))"

text \<open>
  The message listener. Its outcome is that of the synchronous listener body: the
  asynchronous work it starts is not awaited.
\<close>

definition on_message :: "env \<Rightarrow> message_event \<Rightarrow> unit task" where
  "on_message e ev =
     bind (lift (get_prop (data ev) ''action'')) (\<lambda>action.
     bind (lift (get_prop (data ev) ''data'')) (\<lambda>payload.
       if action = JStr ''SKIP_WAITING'' then detach skipWaiting
       else if action = JStr ''CACHE_ANALYSIS'' then detach (cacheAnalysisData e payload)
       else if action = JStr ''QUEUE_OUTCOME'' then queueOutcomeSync e payload
       else if action = JStr ''GET_CACHE_INFO'' then
         detach (bind (getCacheInfo e) (\<lambda>info. post_reply ev info))
       else console_log ''[SW] Unknown message action:''))"

subsection \<open>Cache janitor\<close>

text \<open>
  The test of the sweep, \<open>timestamp && parseInt(timestamp) < cutoff\<close>, on the value of
  \<open>headers.get\<close>: an absent header is \<open>null\<close>, an empty text is falsy as well, and a
  comparison with \<open>NaN\<close> is false.
\<close>

definition stale :: "int \<Rightarrow> string option \<Rightarrow> bool" where
  "stale cutoff timestamp =
     (case timestamp of
        None \<Rightarrow> False
      | Some ts \<Rightarrow> ts \<noteq> [] \<and> (case parseInt ts of None \<Rightarrow> False | Some t \<Rightarrow> t < cutoff))"

text \<open>
  The loop over the requests listed at the start of the sweep. \<open>cache.match\<close> gives
  \<open>undefined\<close> for a request with no entry, and reading its \<open>headers\<close> throws.
\<close>

fun sweep_loop :: "env \<Rightarrow> string \<Rightarrow> int \<Rightarrow> string list \<Rightarrow> unit task" where
  "sweep_loop e cache cutoff [] = ret ()"
| "sweep_loop e cache cutoff (request # rest) =
     bind (cache_match e cache request) (\<lambda>response.
     bind (case response of None \<Rightarrow> throw TypeError
           | Some r \<Rightarrow> ret (headers_get (headers r) ''X-Cache-Timestamp'')) (\<lambda>timestamp.
     bind (if stale cutoff timestamp then cache_delete e cache request else ret ()) (\<lambda>_.
     sweep_loop e cache cutoff rest)))"

text \<open>The callback of \<open>setInterval\<close>, run every 30 minutes.\<close>

definition cleanup :: "env \<Rightarrow> unit task" where
  "cleanup e =
     try_catch
       (bind (caches_open e DATA_CACHE_NAME) (\<lambda>cache.
        bind (cache_keys e cache) (\<lambda>requests.
        bind (sweep_loop e cache (now e - 60 * 60 * 1000) requests) (\<lambda>_.
        console_log ''[SW] Cache cleanup completed''))))
       (\<lambda>error. console_error ''[SW] Cache cleanup failed:'')"

subsection \<open>Notions used in the statements\<close>

text \<open>
  The capture timestamp the janitor reads off an entry: the \<open>X-Cache-Timestamp\<close>
  header, when present and not empty, read by \<open>parseInt\<close>.
\<close>

definition capture_time :: "response \<Rightarrow> int option" where
  "capture_time r =
     (case headers_get (headers r) ''X-Cache-Timestamp'' of
        None \<Rightarrow> None
      | Some ts \<Rightarrow> if ts = [] then None else parseInt ts)"

text \<open>The entries of a cache that a sweep over the listed requests removes.\<close>

definition evict :: "int \<Rightarrow> string list \<Rightarrow> cache \<Rightarrow> cache" where
  "evict cutoff ks c =
     filter (\<lambda>(k, r). \<not> (k \<in> set ks \<and> stale cutoff (headers_get (headers r) ''X-Cache-Timestamp''))) c"

definition set_cache :: "string \<Rightarrow> cache \<Rightarrow> sw_state \<Rightarrow> sw_state" where
  "set_cache name c s = s\<lparr>caches := AList.map_entry name (\<lambda>_. c) (caches s)\<rparr>"

text \<open>The timer fires again and again: one sweep for each environment of the list.\<close>

fun sweeps :: "env list \<Rightarrow> sw_state \<Rightarrow> sw_state" where
  "sweeps [] s = s"
| "sweeps (e # es) s = sweeps es (snd (cleanup e s))"

subsection \<open>Concrete scenarios\<close>

text \<open>
  An environment with the clock at \<open>t\<close>, the network down and no storage fault; a
  worker state with the two current caches and the given dynamic entries; a response
  stamped with an \<open>X-Cache-Timestamp\<close> header.
\<close>

definition offline_env :: "int \<Rightarrow> env" where
  "offline_env t =
     \<lparr>now = t, net = (\<lambda>m u b. Rejected), fault = (\<lambda>op. False), sync_supported = True\<rparr>"

definition fresh_state :: sw_state where
  "fresh_state =
     \<lparr>caches = [], localStorage = [], console = [], net_calls = 0, skip_waiting = 0,
      sync_tags = [], posted = [], unhandled = []\<rparr>"

definition data_state :: "cache \<Rightarrow> sw_state" where
  "data_state c = fresh_state\<lparr>caches := [(CACHE_NAME, []), (DATA_CACHE_NAME, c)]\<rparr>"

definition stamped :: "string \<Rightarrow> response" where
  "stamped ts =
     \<lparr>status = 200, statusText = ''OK'', headers = [(''X-Cache-Timestamp'', ts)],
      body = NoBody\<rparr>"

text \<open>
  Two entries stamped long ago, and an environment in which reading the first of them
  rejects.
\<close>

definition two_old_entries :: sw_state where
  "two_old_entries = data_state [(''/a'', stamped ''1000''), (''/b'', stamped ''2000'')]"

definition read_fault_env :: env where
  "read_fault_env =
     (offline_env 10000000)\<lparr>fault := (\<lambda>op. op = OpMatch DATA_CACHE_NAME ''/a'')\<rparr>"

text \<open>
  A provider whose replies carry an \<open>X-Cache-Timestamp\<close> header of their own, and a
  request to it.
\<close>

definition stamping_env :: env where
  "stamping_env =
     (offline_env 10000000)\<lparr>net := (\<lambda>m u b. Replied (stamped ''1000''))\<rparr>"

definition ping_request :: request where
  "ping_request =
     \<lparr>url = ''https://api.coingecko.com/api/v3/ping'', req_method = ''GET'', req_headers = []\<rparr>"

text \<open>A network that answers every request with the same 200 reply, and a static request.\<close>

definition pong :: response where
  "pong =
     \<lparr>status = 200, statusText = ''OK'', headers = [(''Content-Type'', ''application/json'')],
      body = Text ''pong''\<rparr>"

definition online_env :: env where
  "online_env = (offline_env 10000000)\<lparr>net := (\<lambda>m u b. Replied pong)\<rparr>"

definition icon_request :: request where
  "icon_request =
     \<lparr>url = ''https://example.com/assets/icons/icon-192x192.png'', req_method = ''GET'',
      req_headers = []\<rparr>"

text \<open>
  A worker state with one pending outcome and one unsynced analysis record, and a
  collection endpoint that answers every request with a 500 reply.
\<close>

definition pending_state :: sw_state where
  "pending_state =
     fresh_state\<lparr>localStorage :=
       [(''pendingOutcomes'', JArr [JObj [(''contractAddress'', JStr ''0xabc'')]]),
        (''memeAnalysisHistory'', JArr [JObj [(''contractAddress'', JStr ''0xabc'')]])]\<rparr>"

definition failing_endpoint_env :: env where
  "failing_endpoint_env =
     (offline_env 10000000)\<lparr>net := (\<lambda>m u b. Replied (plain_response ''Internal Server Error'' 500))\<rparr>"

text \<open>A provider that answers every request with a partial reply, status 206.\<close>

definition partial_reply :: response where
  "partial_reply =
     \<lparr>status = 206, statusText = ''Partial Content'',
      headers = [(''Content-Type'', ''application/json'')], body = Text ''pong''\<rparr>"

definition partial_env :: env where
  "partial_env = (offline_env 10000000)\<lparr>net := (\<lambda>m u b. Replied partial_reply)\<rparr>"

section \<open>Properties\<close>

subsection \<open>Strategy classifier\<close>

lemma includes_sublist: "str_includes u needle \<longleftrightarrow> sublist needle u"
proof (induction u)
  case Nil
  then show ?case by simp
next
  case (Cons c cs)
  then show ?case by (auto simp: sublist_Cons_right)
qed

lemma classify_cases:
  "classify u = Api \<or> classify u = Static \<or> classify u = Default"
  by (simp add: classify_def)

text \<open>
  C8 (as amended). The classifier is a total function with the three values
  \<open>Api\<close>, \<open>Static\<close> and \<open>Default\<close>. It answers \<open>Api\<close> when the URL text begins with one
  of the four fixed provider prefixes; otherwise \<open>Static\<close> when the URL text contains,
  at any position, one of \<open>/assets/\<close>, \<open>/icons/\<close>, \<open>.css\<close>, \<open>.js\<close>, \<open>.png\<close>, \<open>.jpg\<close>,
  \<open>.svg\<close>; otherwise \<open>Default\<close>.
\<close>

theorem classify_prefix_substring:
  "classify u =
     (if \<exists>p \<in> set API_CACHE_PATTERNS. prefix p u then Api
      else if \<exists>m \<in> set [''/assets/'', ''/icons/'', ''.css'', ''.js'', ''.png'', ''.jpg'', ''.svg''].
                sublist m u
           then Static
      else Default)"
  by (simp add: classify_def isAPIRequest_def isStaticAsset_def pattern_test_def
      includes_sublist list_ex_iff)

theorem classify_prefix_substring_witness:
  "classify ''https://api.coingecko.com/api/v3/ping'' = Api \<and>
   classify ''https://example.com/assets/app.css'' = Static \<and>
   classify ''https://example.com/about'' = Default"
  using classify_prefix_substring [of "''https://api.coingecko.com/api/v3/ping''"]
    classify_prefix_substring [of "''https://example.com/assets/app.css''"]
    classify_prefix_substring [of "''https://example.com/about''"]
  by (simp add: API_CACHE_PATTERNS_def includes_sublist [symmetric])

text \<open>
  C8 as stated fails: a URL whose path has no \<open>assets\<close> or \<open>icons\<close> segment and ends in
  no style, script or image extension is still classified \<open>Static\<close>, because \<open>.js\<close>
  occurs inside \<open>.json\<close>, or because a marker occurs in the query.
\<close>

theorem classify_static_counterexample:
  "classify ''https://example.com/feed.json'' = Static \<and>
   \<not> spec_static ''https://example.com/feed.json'' \<and>
   classify ''https://example.com/search?q=.css'' = Static \<and>
   \<not> spec_static ''https://example.com/search?q=.css''"
  by (simp add: classify_def isAPIRequest_def isStaticAsset_def pattern_test_def
      API_CACHE_PATTERNS_def spec_static_def url_path_def suffix_def)

subsection \<open>Cache janitor\<close>

lemmas task_defs = bind_def ret_def throw_def try_catch_def lift_def guard_def

lemma map_entry_same:
  "map_of cs name = Some c \<Longrightarrow> AList.map_entry name (\<lambda>_. c) cs = cs"
  by (induction cs) (auto split: if_splits)

lemma map_entry_twice:
  "AList.map_entry name (\<lambda>_. c) (AList.map_entry name f cs) = AList.map_entry name (\<lambda>_. c) cs"
  by (induction cs) (auto split: if_splits)

lemma set_cache_same: "map_of (caches s) name = Some c \<Longrightarrow> set_cache name c s = s"
  by (simp add: set_cache_def map_entry_same)

lemma evict_Nil: "evict cutoff [] c = c"
  by (simp add: evict_def)

lemma evict_Cons_stale:
  assumes "distinct (map fst c)" "map_of c k = Some r"
    "stale cutoff (headers_get (headers r) ''X-Cache-Timestamp'')"
  shows "evict cutoff ks (AList.delete k c) = evict cutoff (k # ks) c"
  using assms unfolding evict_def AList.delete_eq
  by (auto simp: filter_filter intro!: filter_cong dest: eq_key_imp_eq_value)

lemma evict_Cons_fresh:
  assumes "distinct (map fst c)" "map_of c k = Some r"
    "\<not> stale cutoff (headers_get (headers r) ''X-Cache-Timestamp'')"
  shows "evict cutoff ks c = evict cutoff (k # ks) c"
  using assms unfolding evict_def
  by (auto intro!: filter_cong dest: eq_key_imp_eq_value)

lemma sweep_loop_ok:
  assumes "\<forall>k \<in> set ks. \<not> fault e (OpMatch name k) \<and> \<not> fault e (OpDelete name k)"
    and "map_of (caches s) name = Some c"
    and "distinct (map fst c)"
    and "distinct ks"
    and "set ks \<subseteq> fst ` set c"
  shows "sweep_loop e name cutoff ks s = (Inr (), set_cache name (evict cutoff ks c) s)"
  using assms
proof (induction ks arbitrary: s c)
  case Nil
  then show ?case by (simp add: ret_def evict_Nil set_cache_same)
next
  case (Cons k ks)
  from Cons.prems obtain r where r: "map_of c k = Some r"
    by (metis list.set_intros(1) map_of_eq_None_iff not_Some_eq subsetD)
  have nf: "\<not> fault e (OpMatch name k)" "\<not> fault e (OpDelete name k)"
    using Cons.prems(1) by auto
  have ks: "\<forall>k \<in> set ks. \<not> fault e (OpMatch name k) \<and> \<not> fault e (OpDelete name k)"
    using Cons.prems(1) by auto
  show ?case
  proof (cases "stale cutoff (headers_get (headers r) ''X-Cache-Timestamp'')")
    case True
    let ?s1 = "s\<lparr>caches := AList.map_entry name (AList.delete k) (caches s)\<rparr>"
    have c1: "map_of (caches ?s1) name = Some (AList.delete k c)"
      using Cons.prems(2) by (simp add: map_of_map_entry)
    have d1: "distinct (map fst (AList.delete k c))"
      using Cons.prems(3) by (simp add: distinct_delete)
    have sub: "set ks \<subseteq> fst ` set (AList.delete k c)"
      using Cons.prems(4,5) by (fastforce simp: AList.delete_eq image_iff)
    have "sweep_loop e name cutoff ks ?s1 =
            (Inr (), set_cache name (evict cutoff ks (AList.delete k c)) ?s1)"
      using Cons.IH [OF ks c1 d1 _ sub] Cons.prems(4) by simp
    moreover have "set_cache name (evict cutoff ks (AList.delete k c)) ?s1 =
        set_cache name (evict cutoff (k # ks) c) s"
      using evict_Cons_stale [OF Cons.prems(3) r True]
      by (simp add: set_cache_def map_entry_twice)
    ultimately show ?thesis
      using r nf True Cons.prems(2)
      by (simp add: task_defs cache_match_def cache_delete_def the_cache_def)
  next
    case False
    have "sweep_loop e name cutoff ks s = (Inr (), set_cache name (evict cutoff ks c) s)"
      using Cons.IH [OF ks Cons.prems(2,3)] Cons.prems(4,5) by simp
    then show ?thesis
      using r nf False Cons.prems(2) evict_Cons_fresh [OF Cons.prems(3) r False]
      by (simp add: task_defs cache_match_def cache_delete_def the_cache_def)
  qed
qed

lemma evict_all: "evict cutoff (map fst c) c =
    filter (\<lambda>(k, r). \<not> stale cutoff (headers_get (headers r) ''X-Cache-Timestamp'')) c"
  unfolding evict_def by (rule filter_cong) (auto simp: image_iff rev_image_eqI)

lemma cleanup_ok:
  assumes nf: "\<forall>op. \<not> fault e op"
    and d: "distinct (map fst (the_cache s DATA_CACHE_NAME))"
  shows "cleanup e s =
    (Inr (),
     (set_cache DATA_CACHE_NAME
        (filter (\<lambda>(k, r). \<not> stale (now e - 3600000) (headers_get (headers r) ''X-Cache-Timestamp''))
           (the_cache s DATA_CACHE_NAME))
        (if map_of (caches s) DATA_CACHE_NAME = None
         then s\<lparr>caches := caches s @ [(DATA_CACHE_NAME, [])]\<rparr> else s))
     \<lparr>console := console s @ [Info ''[SW] Cache cleanup completed'']\<rparr>)"
proof -
  let ?c = "the_cache s DATA_CACHE_NAME"
  let ?s1 = "if map_of (caches s) DATA_CACHE_NAME = None
         then s\<lparr>caches := caches s @ [(DATA_CACHE_NAME, [])]\<rparr> else s"
  have c1: "map_of (caches ?s1) DATA_CACHE_NAME = Some ?c"
    by (auto simp: the_cache_def map_add_def)
  have "sweep_loop e DATA_CACHE_NAME (now e - 3600000) (map fst ?c) ?s1 =
      (Inr (), set_cache DATA_CACHE_NAME (evict (now e - 3600000) (map fst ?c) ?c) ?s1)"
    by (rule sweep_loop_ok [OF _ c1 d]) (use nf d in auto)
  then show ?thesis
    using nf c1
    by (auto simp: cleanup_def task_defs caches_open_def cache_keys_def console_log_def
        evict_all the_cache_def set_cache_def)
qed

lemma capture_stale:
  "stale cutoff (headers_get (headers r) ''X-Cache-Timestamp'') \<longleftrightarrow>
     (\<exists>t. capture_time r = Some t \<and> t < cutoff)"
  by (auto simp: stale_def capture_time_def split: option.splits)

lemma map_of_filter_distinct:
  "distinct (map fst c) \<Longrightarrow> (k, r) \<in> set c \<Longrightarrow>
     map_of (filter P c) k = (if P (k, r) then Some r else None)"
  by (induction c) (auto simp: image_iff map_of_eq_None_iff)

lemma distinct_filter_fst: "distinct (map fst c) \<Longrightarrow> distinct (map fst (filter P c))"
  by (simp add: distinct_map_filter)

text \<open>
  C4. When no storage operation rejects, a sweep removes every dynamic entry whose
  capture timestamp is older than one hour (\<open>now - capture > 3600000\<close> milliseconds),
  keeps every other entry as it is (younger, or without a readable timestamp), and a
  second sweep at the same clock reading changes no cache.
\<close>

theorem janitor_sweep_ttl:
  assumes "\<forall>op. \<not> fault e op"
    and "distinct (map fst (the_cache s DATA_CACHE_NAME))"
  shows "(\<forall>(k, r) \<in> set (the_cache s DATA_CACHE_NAME).
            map_of (the_cache (snd (cleanup e s)) DATA_CACHE_NAME) k =
              (case capture_time r of
                 None \<Rightarrow> Some r
               | Some t \<Rightarrow> if now e - t > 60 * 60 * 1000 then None else Some r)) \<and>
         caches (snd (cleanup e (snd (cleanup e s)))) = caches (snd (cleanup e s))"
proof -
  let ?P = "\<lambda>(k, r). \<not> stale (now e - 3600000) (headers_get (headers r) ''X-Cache-Timestamp'')"
  let ?c = "the_cache s DATA_CACHE_NAME"
  let ?s' = "snd (cleanup e s)"
  have ex: "map_of (caches ?s') DATA_CACHE_NAME = Some (filter ?P ?c)"
    by (auto simp: cleanup_ok [OF assms] set_cache_def map_of_map_entry the_cache_def
        map_add_def split: option.splits)
  then have c': "the_cache ?s' DATA_CACHE_NAME = filter ?P ?c"
    by (simp add: the_cache_def)
  have d': "distinct (map fst (the_cache ?s' DATA_CACHE_NAME))"
    using assms(2) by (simp add: c' distinct_filter_fst)
  have 1: "\<forall>(k, r) \<in> set ?c.
            map_of (the_cache ?s' DATA_CACHE_NAME) k =
              (case capture_time r of
                 None \<Rightarrow> Some r
               | Some t \<Rightarrow> if now e - t > 60 * 60 * 1000 then None else Some r)"
    using assms(2)
    by (auto simp: c' map_of_filter_distinct capture_stale split: option.splits)
  have 2: "caches (snd (cleanup e ?s')) = caches ?s'"
    using ex by (simp add: cleanup_ok [OF assms(1) d'] c' set_cache_def map_entry_same)
  from 1 2 show ?thesis by blast
qed

lemmas parse_defs = parseInt_def parse_digits_def is_digit_def digit_value_def js_whitespace_def

theorem janitor_sweep_ttl_witness:
  "map_of (the_cache (snd (cleanup (offline_env 10000000)
      (data_state [(''/old'', stamped ''6399000''), (''/young'', stamped ''6401000'')])))
      DATA_CACHE_NAME) ''/old'' = None \<and>
   map_of (the_cache (snd (cleanup (offline_env 10000000)
      (data_state [(''/old'', stamped ''6399000''), (''/young'', stamped ''6401000'')])))
      DATA_CACHE_NAME) ''/young'' = Some (stamped ''6401000'')"
  using janitor_sweep_ttl [of "offline_env 10000000"
      "data_state [(''/old'', stamped ''6399000''), (''/young'', stamped ''6401000'')]"]
  by (simp add: offline_env_def data_state_def fresh_state_def the_cache_def CACHE_NAME_def
      DATA_CACHE_NAME_def capture_time_def headers_get_def stamped_def parse_defs)

lemma cleanup_never_throws: "fst (cleanup e s) = Inr ()"
  by (simp add: cleanup_def try_catch_def console_error_def split: prod.splits sum.splits)

lemma sweep_loop_append:
  "sweep_loop e name cutoff (ks1 @ ks2) =
     bind (sweep_loop e name cutoff ks1) (\<lambda>_. sweep_loop e name cutoff ks2)"
proof (induction ks1)
  case Nil
  show ?case by (simp add: bind_def ret_def)
next
  case (Cons k ks1)
  show ?case
    by (simp add: Cons.IH) (auto simp: bind_def split: prod.splits sum.splits)
qed

lemma the_cache_map_entry_delete:
  "the_cache (s\<lparr>caches := AList.map_entry name (AList.delete k) (caches s)\<rparr>) name =
     AList.delete k (the_cache s name)"
  by (simp add: the_cache_def map_of_map_entry split: option.splits)

lemma sweep_loop_step:
  "sweep_loop e name cutoff (k # ks) s =
     (if fault e (OpMatch name k) then (Inl StorageFault, s)
      else case map_of (the_cache s name) k of
             None \<Rightarrow> (Inl TypeError, s)
           | Some r \<Rightarrow>
               if stale cutoff (headers_get (headers r) ''X-Cache-Timestamp'') then
                 if fault e (OpDelete name k) then (Inl StorageFault, s)
                 else sweep_loop e name cutoff ks
                        (s\<lparr>caches := AList.map_entry name (AList.delete k) (caches s)\<rparr>)
               else sweep_loop e name cutoff ks s)"
  by (simp add: task_defs cache_match_def cache_delete_def split: option.splits)

text \<open>Whatever rejects, the loop only ever removes entries that test stale.\<close>

lemma sweep_loop_keeps:
  assumes "distinct (map fst (the_cache s name))"
  shows "distinct (map fst (the_cache (snd (sweep_loop e name cutoff ks s)) name)) \<and>
    (\<forall>(k, r) \<in> set (the_cache s name).
       \<not> stale cutoff (headers_get (headers r) ''X-Cache-Timestamp'') \<longrightarrow>
       (k, r) \<in> set (the_cache (snd (sweep_loop e name cutoff ks s)) name))"
  using assms
proof (induction ks arbitrary: s)
  case Nil
  then show ?case by (auto simp: ret_def)
next
  case (Cons k ks)
  let ?s1 = "s\<lparr>caches := AList.map_entry name (AList.delete k) (caches s)\<rparr>"
  let ?c = "the_cache s name"
  have d1: "distinct (map fst (the_cache ?s1 name))"
    using Cons.prems by (simp add: the_cache_map_entry_delete distinct_delete)
  show ?case
  proof (cases "fault e (OpMatch name k)")
    case True
    then have "snd (sweep_loop e name cutoff (k # ks) s) = s"
      by (subst sweep_loop_step) simp
    then show ?thesis using Cons.prems by auto
  next
    case nm: False
    show ?thesis
    proof (cases "map_of ?c k")
      case None
      then have "snd (sweep_loop e name cutoff (k # ks) s) = s"
        using nm by (subst sweep_loop_step) simp
      then show ?thesis using Cons.prems by auto
    next
      case (Some r)
      show ?thesis
      proof (cases "stale cutoff (headers_get (headers r) ''X-Cache-Timestamp'')")
        case False
        then have "snd (sweep_loop e name cutoff (k # ks) s) = snd (sweep_loop e name cutoff ks s)"
          using nm Some by (subst sweep_loop_step) simp
        then show ?thesis using Cons.IH [OF Cons.prems] by simp
      next
        case st: True
        show ?thesis
        proof (cases "fault e (OpDelete name k)")
          case True
          then have "snd (sweep_loop e name cutoff (k # ks) s) = s"
            using nm Some st by (subst sweep_loop_step) simp
          then show ?thesis using Cons.prems by auto
        next
          case False
          then have eq: "snd (sweep_loop e name cutoff (k # ks) s) =
              snd (sweep_loop e name cutoff ks ?s1)"
            using nm Some st by (subst sweep_loop_step) simp
          have keep: "\<And>k' r'. (k', r') \<in> set ?c \<Longrightarrow>
              \<not> stale cutoff (headers_get (headers r') ''X-Cache-Timestamp'') \<Longrightarrow>
              (k', r') \<in> set (the_cache ?s1 name)"
            unfolding the_cache_map_entry_delete using Cons.prems Some st
            by (auto simp: AList.delete_eq dest: eq_key_imp_eq_value)
          show ?thesis
            using Cons.IH [OF d1] keep unfolding eq by fastforce
        qed
      qed
    qed
  qed
qed

lemma cleanup_keeps:
  assumes "distinct (map fst (the_cache s DATA_CACHE_NAME))"
    and "(k, r) \<in> set (the_cache s DATA_CACHE_NAME)"
    and "\<not> stale (now e - 3600000) (headers_get (headers r) ''X-Cache-Timestamp'')"
  shows "distinct (map fst (the_cache (snd (cleanup e s)) DATA_CACHE_NAME)) \<and>
         (k, r) \<in> set (the_cache (snd (cleanup e s)) DATA_CACHE_NAME)"
proof -
  let ?s1 = "if map_of (caches s) DATA_CACHE_NAME = None
         then s\<lparr>caches := caches s @ [(DATA_CACHE_NAME, [])]\<rparr> else s"
  let ?s2 = "snd (sweep_loop e DATA_CACHE_NAME (now e - 3600000)
                 (map fst (the_cache ?s1 DATA_CACHE_NAME)) ?s1)"
  have c1: "the_cache ?s1 DATA_CACHE_NAME = the_cache s DATA_CACHE_NAME"
    by (auto simp: the_cache_def map_add_def)
  have "the_cache (snd (cleanup e s)) DATA_CACHE_NAME = the_cache s DATA_CACHE_NAME \<or>
        the_cache (snd (cleanup e s)) DATA_CACHE_NAME = the_cache ?s2 DATA_CACHE_NAME"
    using c1
    by (auto simp: cleanup_def task_defs caches_open_def cache_keys_def console_log_def
        console_error_def the_cache_def split: prod.splits sum.splits)
  moreover have "distinct (map fst (the_cache ?s2 DATA_CACHE_NAME)) \<and>
      (k, r) \<in> set (the_cache ?s2 DATA_CACHE_NAME)"
    using sweep_loop_keeps [of ?s1 DATA_CACHE_NAME e "now e - 3600000"
        "map fst (the_cache ?s1 DATA_CACHE_NAME)"] assms
    unfolding c1 by fastforce
  ultimately show ?thesis using assms by auto
qed


lemma evict_prefix:
  assumes "distinct (map fst (pre @ (k, r) # post))"
  shows "evict cutoff (map fst pre) (pre @ (k, r) # post) =
         evict cutoff (map fst pre) pre @ (k, r) # post"
proof -
  from assms have disj: "fst ` set pre \<inter> fst ` set post = {}" and k: "k \<notin> fst ` set pre"
    by auto
  have "\<And>x. x \<in> set post \<Longrightarrow> fst x \<notin> fst ` set pre"
    using disj by blast
  then have "filter (\<lambda>(k', r'). \<not> (k' \<in> set (map fst pre) \<and>
          stale cutoff (headers_get (headers r') ''X-Cache-Timestamp''))) post = post"
    by (intro filter_True) (simp add: case_prod_unfold)
  then show ?thesis
    using k by (simp add: evict_def)
qed

text \<open>
  C3 (as amended). The janitor callback never throws, whatever rejects. The sweep has
  one handler around the whole loop: when reading an entry rejects, or deleting an entry
  that tests stale rejects, the failure is logged and the sweep ends there. The entries
  listed before it have been swept; that entry and every entry listed after it are left
  in the cache as they were.
\<close>

theorem janitor_fault_ends_sweep:
  assumes c: "the_cache s DATA_CACHE_NAME = pre @ (k, r) # post"
    and d: "distinct (map fst (the_cache s DATA_CACHE_NAME))"
    and nf: "\<not> fault e (OpOpen DATA_CACHE_NAME)" "\<not> fault e (OpKeys DATA_CACHE_NAME)"
    and pre: "\<forall>k' \<in> set (map fst pre).
           \<not> fault e (OpMatch DATA_CACHE_NAME k') \<and> \<not> fault e (OpDelete DATA_CACHE_NAME k')"
    and flt: "fault e (OpMatch DATA_CACHE_NAME k) \<or>
         (stale (now e - 60 * 60 * 1000) (headers_get (headers r) ''X-Cache-Timestamp'') \<and>
          fault e (OpDelete DATA_CACHE_NAME k))"
  shows "(\<forall>e' s'. fst (cleanup e' s') = Inr ()) \<and>
         cleanup e s =
           (Inr (),
            (set_cache DATA_CACHE_NAME
               (evict (now e - 60 * 60 * 1000) (map fst pre) pre @ (k, r) # post) s)
            \<lparr>console := console s @ [Error ''[SW] Cache cleanup failed:'']\<rparr>)"
proof -
  define cut where "cut = now e - 60 * 60 * 1000"
  define c1 where "c1 = evict cut (map fst pre) pre @ (k, r) # post"
  define s1 where "s1 = set_cache DATA_CACHE_NAME c1 s"
  let ?c = "pre @ (k, r) # post"
  have flt': "fault e (OpMatch DATA_CACHE_NAME k) \<or>
         (stale cut (headers_get (headers r) ''X-Cache-Timestamp'') \<and>
          fault e (OpDelete DATA_CACHE_NAME k))"
    using flt by (simp add: cut_def)
  have ex: "map_of (caches s) DATA_CACHE_NAME = Some ?c"
    using c by (auto simp: the_cache_def split: option.splits)
  have d': "distinct (map fst ?c)" using d c by simp
  have "sweep_loop e DATA_CACHE_NAME cut (map fst pre) s =
      (Inr (), set_cache DATA_CACHE_NAME (evict cut (map fst pre) ?c) s)"
    by (rule sweep_loop_ok [OF _ ex d']) (use pre d' in auto)
  then have p1: "sweep_loop e DATA_CACHE_NAME cut (map fst pre) s = (Inr (), s1)"
    by (simp only: evict_prefix [OF d'] s1_def c1_def)
  have "map_of (caches s1) DATA_CACHE_NAME = Some c1"
    using ex by (simp add: s1_def set_cache_def map_of_map_entry)
  then have tc: "the_cache s1 DATA_CACHE_NAME = c1"
    by (simp add: the_cache_def)
  have "k \<notin> fst ` set (evict cut (map fst pre) pre)"
    using d' by (auto simp: evict_def image_iff)
  then have "map_of c1 k = Some r"
    by (simp add: c1_def map_add_Some_iff map_of_eq_None_iff)
  then have p2: "sweep_loop e DATA_CACHE_NAME cut (k # map fst post) s1 = (Inl StorageFault, s1)"
    using flt' by (subst sweep_loop_step) (auto simp: tc)
  have "sweep_loop e DATA_CACHE_NAME cut (map fst ?c) s = (Inl StorageFault, s1)"
    using p1 p2 by (simp add: sweep_loop_append bind_def)
  then have "cleanup e s = (Inr (), s1\<lparr>console := console s @ [Error ''[SW] Cache cleanup failed:'']\<rparr>)"
    using nf ex c
    by (simp add: cleanup_def task_defs caches_open_def cache_keys_def console_error_def
        cut_def s1_def set_cache_def)
  then show ?thesis using cleanup_never_throws by (simp add: s1_def c1_def cut_def)
qed

theorem janitor_fault_ends_sweep_witness:
  "fst (cleanup read_fault_env two_old_entries) = Inr () \<and>
   the_cache (snd (cleanup read_fault_env two_old_entries)) DATA_CACHE_NAME =
     [(''/a'', stamped ''1000''), (''/b'', stamped ''2000'')] \<and>
   console (snd (cleanup read_fault_env two_old_entries)) =
     [Error ''[SW] Cache cleanup failed:'']"
  using janitor_fault_ends_sweep [of two_old_entries "[]" "''/a''" "stamped ''1000''"
      "[(''/b'', stamped ''2000'')]" read_fault_env]
  by (simp add: two_old_entries_def read_fault_env_def offline_env_def data_state_def
      fresh_state_def the_cache_def set_cache_def evict_def CACHE_NAME_def DATA_CACHE_NAME_def)

text \<open>
  C3 as stated fails: with two entries stamped long ago, a rejected read of the first
  leaves the second in the cache, although a sweep without the fault removes it.
\<close>

theorem janitor_fault_counterexample:
  "capture_time (stamped ''2000'') = Some 2000 \<and>
   now read_fault_env - 2000 > 60 * 60 * 1000 \<and>
   map_of (the_cache (snd (cleanup read_fault_env two_old_entries)) DATA_CACHE_NAME) ''/b'' =
     Some (stamped ''2000'') \<and>
   map_of (the_cache (snd (cleanup (offline_env 10000000) two_old_entries)) DATA_CACHE_NAME) ''/b'' =
     None"
  by (simp add: two_old_entries_def read_fault_env_def offline_env_def data_state_def
      fresh_state_def the_cache_def CACHE_NAME_def DATA_CACHE_NAME_def cleanup_def task_defs
      caches_open_def cache_keys_def cache_match_def cache_delete_def console_log_def
      console_error_def capture_time_def headers_get_def stamped_def stale_def parse_defs)

subsection \<open>What the worker writes and what the janitor removes\<close>

lemma distinct_put_entry:
  "distinct (map fst c) \<Longrightarrow> distinct (map fst (put_entry k r c))"
  by (auto simp: put_entry_def distinct_delete distinct_map_filter AList.delete_eq)

lemma in_put_entry:
  "(k', r') \<in> set (put_entry k r c) \<Longrightarrow> (k', r') \<in> set c \<or> (k' = k \<and> r' = r)"
  by (auto simp: put_entry_def AList.delete_eq)

lemma handleAPIRequest_data:
  "the_cache (snd (handleAPIRequest e rq s)) DATA_CACHE_NAME = the_cache s DATA_CACHE_NAME \<or>
   (\<exists>r. net e (req_method rq) (url rq) NoBody = Replied r \<and>
        the_cache (snd (handleAPIRequest e rq s)) DATA_CACHE_NAME =
          put_entry (url rq) r (the_cache s DATA_CACHE_NAME))"
  by (cases "net e (req_method rq) (url rq) NoBody")
     (auto simp: handleAPIRequest_def task_defs fetch_def caches_open_def cache_put_def
        caches_match_def console_log_def the_cache_def map_of_map_entry map_add_def
        split: option.splits)

lemma cacheAnalysisData_data:
  "the_cache (snd (cacheAnalysisData e d s)) DATA_CACHE_NAME = the_cache s DATA_CACHE_NAME \<or>
   (\<exists>k. the_cache (snd (cacheAnalysisData e d s)) DATA_CACHE_NAME =
          put_entry k \<lparr>status = 200, statusText = [],
                 headers = [(''Content-Type'', ''application/json'')],
                 body = JsonText d\<rparr> (the_cache s DATA_CACHE_NAME))"
  by (cases "get_prop d ''contractAddress''")
     (auto simp: cacheAnalysisData_def task_defs caches_open_def cache_put_def
        console_log_def console_error_def the_cache_def map_of_map_entry map_add_def
        split: option.splits)

lemma stale_None: "\<not> stale cutoff None"
  by (simp add: stale_def)

lemma sweeps_keep:
  assumes "distinct (map fst (the_cache s DATA_CACHE_NAME))"
    and "(k, r) \<in> set (the_cache s DATA_CACHE_NAME)"
    and "headers_get (headers r) ''X-Cache-Timestamp'' = None"
  shows "(k, r) \<in> set (the_cache (sweeps es s) DATA_CACHE_NAME)"
  using assms
proof (induction es arbitrary: s)
  case Nil
  then show ?case by simp
next
  case (Cons e es)
  have "\<not> stale (now e - 3600000) (headers_get (headers r) ''X-Cache-Timestamp'')"
    using Cons.prems(3) by (simp add: stale_None)
  from cleanup_keeps [OF Cons.prems(1,2) this] Cons.IH Cons.prems(3)
  show ?case by simp
qed

lemma cleanup_removed_stale:
  assumes "distinct (map fst (the_cache s DATA_CACHE_NAME))"
    and "(k, r) \<in> set (the_cache s DATA_CACHE_NAME)"
    and "(k, r) \<notin> set (the_cache (snd (cleanup e s)) DATA_CACHE_NAME)"
  shows "\<exists>t. capture_time r = Some t \<and> t < now e - 60 * 60 * 1000"
proof -
  have "stale (now e - 3600000) (headers_get (headers r) ''X-Cache-Timestamp'')"
    using cleanup_keeps [OF assms(1,2), of e] assms(3) by blast
  then show ?thesis by (simp add: capture_stale)
qed

text \<open>
  C10 (as amended). The worker never stamps an entry. The entry that \<open>CACHE_ANALYSIS\<close>
  writes into the dynamic cache has no \<open>X-Cache-Timestamp\<close> header and is kept by every
  later sequence of sweeps. The entry that the api write-through writes is the network
  response as it came, and is kept by every later sequence of sweeps when that response
  has no \<open>X-Cache-Timestamp\<close> header of its own. A sweep removes an entry only when its
  capture timestamp is present and older than the cutoff.
\<close>

theorem worker_entries_outlive_sweeps:
  assumes "distinct (map fst (the_cache s DATA_CACHE_NAME))"
  shows
    "(\<forall>(k, r) \<in> set (the_cache (snd (cacheAnalysisData e d s)) DATA_CACHE_NAME)
                  - set (the_cache s DATA_CACHE_NAME).
        headers_get (headers r) ''X-Cache-Timestamp'' = None \<and>
        (k, r) \<in> set (the_cache (sweeps es (snd (cacheAnalysisData e d s))) DATA_CACHE_NAME)) \<and>
     (\<forall>(k, r) \<in> set (the_cache (snd (handleAPIRequest e rq s)) DATA_CACHE_NAME)
                  - set (the_cache s DATA_CACHE_NAME).
        net e (req_method rq) (url rq) NoBody = Replied r \<and>
        (headers_get (headers r) ''X-Cache-Timestamp'' = None \<longrightarrow>
         (k, r) \<in> set (the_cache (sweeps es (snd (handleAPIRequest e rq s))) DATA_CACHE_NAME))) \<and>
     (\<forall>(k, r) \<in> set (the_cache s DATA_CACHE_NAME).
        (k, r) \<notin> set (the_cache (snd (cleanup e s)) DATA_CACHE_NAME) \<longrightarrow>
        (\<exists>t. capture_time r = Some t \<and> t < now e - 60 * 60 * 1000))"
proof -
  let ?sa = "snd (cacheAnalysisData e d s)"
  let ?sh = "snd (handleAPIRequest e rq s)"
  let ?resp = "\<lparr>status = 200, statusText = [],
                 headers = [(''Content-Type'', ''application/json'')],
                 body = JsonText d\<rparr>"
  have da: "distinct (map fst (the_cache ?sa DATA_CACHE_NAME))"
    using cacheAnalysisData_data [of e d s] assms by (auto simp: distinct_put_entry)
  have dh: "distinct (map fst (the_cache ?sh DATA_CACHE_NAME))"
    using handleAPIRequest_data [of e rq s] assms by (auto simp: distinct_put_entry)
  have a: "(k, r) \<in> set (the_cache ?sa DATA_CACHE_NAME) - set (the_cache s DATA_CACHE_NAME) \<Longrightarrow>
        headers_get (headers r) ''X-Cache-Timestamp'' = None \<and>
        (k, r) \<in> set (the_cache (sweeps es ?sa) DATA_CACHE_NAME)" for k r
  proof -
    assume in_new: "(k, r) \<in> set (the_cache ?sa DATA_CACHE_NAME) - set (the_cache s DATA_CACHE_NAME)"
    then have "r = ?resp"
      using cacheAnalysisData_data [of e d s] by (auto dest: in_put_entry)
    then have h: "headers_get (headers r) ''X-Cache-Timestamp'' = None"
      by (simp add: headers_get_def)
    from sweeps_keep [OF da _ h] in_new h show ?thesis by blast
  qed
  have b: "(k, r) \<in> set (the_cache ?sh DATA_CACHE_NAME) - set (the_cache s DATA_CACHE_NAME) \<Longrightarrow>
        net e (req_method rq) (url rq) NoBody = Replied r \<and>
        (headers_get (headers r) ''X-Cache-Timestamp'' = None \<longrightarrow>
         (k, r) \<in> set (the_cache (sweeps es ?sh) DATA_CACHE_NAME))" for k r
  proof -
    assume in_new: "(k, r) \<in> set (the_cache ?sh DATA_CACHE_NAME) - set (the_cache s DATA_CACHE_NAME)"
    then have "net e (req_method rq) (url rq) NoBody = Replied r"
      using handleAPIRequest_data [of e rq s] by (auto dest: in_put_entry)
    with sweeps_keep [OF dh] in_new show ?thesis by blast
  qed
  have c: "(k, r) \<in> set (the_cache s DATA_CACHE_NAME) \<Longrightarrow>
        (k, r) \<notin> set (the_cache (snd (cleanup e s)) DATA_CACHE_NAME) \<Longrightarrow>
        (\<exists>t. capture_time r = Some t \<and> t < now e - 60 * 60 * 1000)" for k r
    using cleanup_removed_stale [OF assms] by blast
  from a b c show ?thesis by blast
qed

theorem worker_entries_outlive_sweeps_witness:
  "(''/analysis/0xabc'',
    \<lparr>status = 200, statusText = [], headers = [(''Content-Type'', ''application/json'')],
     body = JsonText (JObj [(''contractAddress'', JStr ''0xabc'')])\<rparr>)
   \<in> set (the_cache
          (sweeps [offline_env 20000000, offline_env 90000000]
             (snd (cacheAnalysisData (offline_env 10000000)
                     (JObj [(''contractAddress'', JStr ''0xabc'')]) (data_state []))))
          DATA_CACHE_NAME)"
  using worker_entries_outlive_sweeps [of "data_state []" "offline_env 10000000"
      "JObj [(''contractAddress'', JStr ''0xabc'')]"
      "[offline_env 20000000, offline_env 90000000]" ping_request]
  by (simp add: offline_env_def data_state_def fresh_state_def the_cache_def CACHE_NAME_def
      DATA_CACHE_NAME_def cacheAnalysisData_def task_defs caches_open_def cache_put_def
      cache_refuses_def headers_get_def console_log_def put_entry_def)

text \<open>
  C10 as stated fails: when the provider's reply itself carries an
  \<open>X-Cache-Timestamp\<close> header, the entry written by the api write-through carries it
  too, and the next sweep removes that entry.
\<close>

theorem stamped_reply_counterexample:
  "classify (url ping_request) = Api \<and>
   map_of (the_cache (snd (handleAPIRequest stamping_env ping_request (data_state [])))
             DATA_CACHE_NAME) (url ping_request) = Some (stamped ''1000'') \<and>
   headers_get (headers (stamped ''1000'')) ''X-Cache-Timestamp'' = Some ''1000'' \<and>
   map_of (the_cache (snd (cleanup stamping_env
                        (snd (handleAPIRequest stamping_env ping_request (data_state [])))))
             DATA_CACHE_NAME) (url ping_request) = None"
  by (simp add: stamping_env_def ping_request_def offline_env_def data_state_def
      fresh_state_def the_cache_def CACHE_NAME_def DATA_CACHE_NAME_def handleAPIRequest_def
      fetch_def ok_def put_entry_def cache_put_def cache_refuses_def cleanup_def task_defs
      caches_open_def cache_keys_def cache_match_def cache_delete_def console_log_def
      console_error_def headers_get_def stamped_def stale_def parse_defs
      classify_def isAPIRequest_def pattern_test_def API_CACHE_PATTERNS_def)

subsection \<open>Fetch interceptor\<close>

lemma map_of_put_entry: "map_of (put_entry k r c) k = Some r"
  by (simp add: put_entry_def map_add_def delete_conv')

lemma first_match_append:
  "first_match (cs1 @ cs2) k =
     (case first_match cs1 k of Some r \<Rightarrow> Some r | None \<Rightarrow> first_match cs2 k)"
  by (induction cs1) (auto split: option.splits)

lemma first_match_put:
  "first_match (map snd cs) k = None \<Longrightarrow> map_of cs name \<noteq> None \<Longrightarrow>
   first_match (map snd (AList.map_entry name (put_entry k r) cs)) k = Some r"
  by (induction cs) (auto simp: map_of_put_entry split: option.splits if_splits)

text \<open>
  C6 (as amended). For an api-classified GET request whose fetch replies with a 2xx
  status that the cache does not refuse (not 206, no \<open>Vary: *\<close>), and with the dynamic
  cache accepting the write, the interceptor answers with the network response itself,
  and afterwards the dynamic cache holds, under the URL of the request, that same
  response: its body is the body of the network response.
\<close>

theorem api_write_through:
  assumes "classify (url rq) = Api"
    and "req_method rq = ''GET''"
    and "net e (req_method rq) (url rq) NoBody = Replied r"
    and "ok r"
    and "\<not> cache_refuses r"
    and "\<not> fault e (OpOpen DATA_CACHE_NAME)"
    and "\<not> fault e (OpPut DATA_CACHE_NAME (url rq))"
  shows "on_fetch e rq = Some (respond e rq) \<and>
         fst (respond e rq s) = Inr (Some r) \<and>
         map_of (the_cache (snd (respond e rq s)) DATA_CACHE_NAME) (url rq) = Some r"
  using assms
  by (auto simp: on_fetch_def respond_def handleAPIRequest_def task_defs fetch_def
      caches_open_def cache_put_def the_cache_def map_of_map_entry map_of_put_entry
      map_add_def)

text \<open>
  C6 as stated fails: a reply with status 206 is a 2xx reply, the cache refuses it, and
  the interceptor then answers with the synthesized offline response and stores
  nothing.
\<close>

theorem api_partial_reply_counterexample:
  "classify (url ping_request) = Api \<and>
   net partial_env (req_method ping_request) (url ping_request) NoBody = Replied partial_reply \<and>
   ok partial_reply \<and>
   fst (respond partial_env ping_request fresh_state) =
     Inr (Some (createOfflineFallback partial_env ping_request)) \<and>
   map_of (the_cache (snd (respond partial_env ping_request fresh_state)) DATA_CACHE_NAME)
     (url ping_request) = None"
  by (simp add: partial_env_def partial_reply_def offline_env_def ping_request_def
      fresh_state_def ok_def cache_refuses_def respond_def handleAPIRequest_def task_defs
      fetch_def caches_open_def cache_put_def caches_match_def console_log_def the_cache_def
      classify_def isAPIRequest_def pattern_test_def API_CACHE_PATTERNS_def
      DATA_CACHE_NAME_def)

text \<open>
  C5. For an api-classified request the interceptor always resolves with a response,
  whatever the network does and whether or not the cache accepts a write, as long as
  the cache lookup itself answers. When the fetch rejects or replies with a status that
  is not 2xx, and no cache has an entry for the request, the response is the synthesized
  one: status 200 and a JSON body whose \<open>offline\<close> is \<open>true\<close> and whose \<open>timestamp\<close> is
  the clock reading at synthesis.
\<close>

theorem api_never_hard_failure:
  assumes "classify (url rq) = Api"
    and "\<not> fault e (OpMatchAny (url rq))"
  shows "(\<exists>r. fst (respond e rq s) = Inr (Some r)) \<and>
         ((net e (req_method rq) (url rq) NoBody = Rejected \<or>
           (\<exists>r. net e (req_method rq) (url rq) NoBody = Replied r \<and> \<not> ok r)) \<and>
          first_match (map snd (caches s)) (url rq) = None \<longrightarrow>
            fst (respond e rq s) = Inr (Some (createOfflineFallback e rq)) \<and>
            status (createOfflineFallback e rq) = 200 \<and>
            (\<exists>fields. body (createOfflineFallback e rq) = JsonText (JObj fields) \<and>
               map_of fields ''offline'' = Some (JBool True) \<and>
               map_of fields ''timestamp'' = Some (JNum (now e))))"
proof -
  have fb: "status (createOfflineFallback e rq) = 200 \<and>
            (\<exists>fields. body (createOfflineFallback e rq) = JsonText (JObj fields) \<and>
               map_of fields ''offline'' = Some (JBool True) \<and>
               map_of fields ''timestamp'' = Some (JNum (now e)))"
    by (simp add: createOfflineFallback_def)
  have 1: "\<exists>r. fst (respond e rq s) = Inr (Some r)"
    using assms
    by (cases "net e (req_method rq) (url rq) NoBody")
       (auto simp: respond_def handleAPIRequest_def task_defs fetch_def caches_open_def
          cache_put_def caches_match_def console_log_def split: option.splits)
  have 2: "fst (respond e rq s) = Inr (Some (createOfflineFallback e rq))"
    if "net e (req_method rq) (url rq) NoBody = Rejected \<or>
           (\<exists>r. net e (req_method rq) (url rq) NoBody = Replied r \<and> \<not> ok r)"
      and "first_match (map snd (caches s)) (url rq) = None"
    using assms that
    by (auto simp: respond_def handleAPIRequest_def task_defs fetch_def
          caches_match_def console_log_def)
  from 1 2 fb show ?thesis by blast
qed

lemma first_match_None_map_of:
  "first_match (map snd cs) k = None \<Longrightarrow> map_of cs name = Some c \<Longrightarrow> map_of c k = None"
  by (induction cs) (auto split: option.splits if_splits)

lemma static_populating_request:
  assumes "\<not> fault e1 (OpMatchAny (url rq))"
    and "\<not> fault e1 (OpOpen CACHE_NAME)"
    and "\<not> fault e1 (OpPut CACHE_NAME (url rq))"
    and "first_match (map snd (caches s)) (url rq) = None"
    and "net e1 (req_method rq) (url rq) NoBody = Replied r"
    and "ok r"
    and "\<not> cache_refuses r"
    and "\<not> fault e2 (OpMatchAny (url rq))"
  shows "fst (handleStaticRequest e1 rq s) = Inr r \<and>
         map_of (the_cache (snd (handleStaticRequest e1 rq s)) CACHE_NAME) (url rq) = Some r \<and>
         handleStaticRequest e2 rq (snd (handleStaticRequest e1 rq s)) =
           (Inr r, snd (handleStaticRequest e1 rq s))"
proof -
  let ?s0 = "s\<lparr>net_calls := Suc (net_calls s)\<rparr>"
  let ?s1 = "if map_of (caches ?s0) CACHE_NAME = None
             then ?s0\<lparr>caches := caches ?s0 @ [(CACHE_NAME, [])]\<rparr> else ?s0"
  let ?s2 = "?s1\<lparr>caches := AList.map_entry CACHE_NAME (put_entry (url rq) r) (caches ?s1)\<rparr>"
  have first: "handleStaticRequest e1 rq s = (Inr r, ?s2)"
    using assms(1-7)
    by (simp add: handleStaticRequest_def task_defs fetch_def caches_open_def
        cache_put_def caches_match_def)
  have ex: "map_of (caches ?s1) CACHE_NAME \<noteq> None"
    by (auto simp: map_add_def)
  have none: "first_match (map snd (caches ?s1)) (url rq) = None"
    using assms(4) by (simp add: first_match_append)
  have hit: "first_match (map snd (caches ?s2)) (url rq) = Some r"
    using first_match_put [OF none ex] by simp
  have stored: "map_of (the_cache ?s2 CACHE_NAME) (url rq) = Some r"
    using ex by (auto simp: the_cache_def map_of_map_entry map_of_put_entry)
  have second: "handleStaticRequest e2 rq ?s2 = (Inr r, ?s2)"
    using assms(8) hit
    by (simp add: handleStaticRequest_def task_defs caches_match_def)
  show ?thesis
    unfolding first using stored second by simp
qed

text \<open>Only an accepted write of a 2xx reply puts an entry into the static cache.\<close>

lemma static_populated_only_by_write:
  assumes none: "first_match (map snd (caches s)) (url rq) = None"
    and pop: "map_of (the_cache (snd (handleStaticRequest e1 rq s)) CACHE_NAME) (url rq) = Some r"
  shows "net e1 (req_method rq) (url rq) NoBody = Replied r \<and> ok r \<and> \<not> cache_refuses r \<and>
         \<not> fault e1 (OpMatchAny (url rq)) \<and> \<not> fault e1 (OpOpen CACHE_NAME) \<and>
         \<not> fault e1 (OpPut CACHE_NAME (url rq))"
proof -
  have base: "map_of (the_cache s CACHE_NAME) (url rq) = None"
    using first_match_None_map_of [OF none, of CACHE_NAME]
    by (auto simp: the_cache_def split: option.splits)
  have unchanged: "the_cache s' CACHE_NAME = the_cache s CACHE_NAME"
    if "caches s' = caches s \<or>
        (map_of (caches s) CACHE_NAME = None \<and> caches s' = caches s @ [(CACHE_NAME, [])])" for s'
    using that by (auto simp: the_cache_def map_add_def)
  show ?thesis
  proof (rule ccontr)
    assume neg: "\<not> ?thesis"
    have "caches (snd (handleStaticRequest e1 rq s)) = caches s \<or>
        (map_of (caches s) CACHE_NAME = None \<and>
         caches (snd (handleStaticRequest e1 rq s)) = caches s @ [(CACHE_NAME, [])]) \<or>
        (\<exists>r'. r' \<noteq> r \<and>
           map_of (the_cache (snd (handleStaticRequest e1 rq s)) CACHE_NAME) (url rq) = Some r')"
      using neg none
      by (cases "net e1 (req_method rq) (url rq) NoBody")
         (auto simp: handleStaticRequest_def task_defs fetch_def caches_open_def cache_put_def
            caches_match_def console_log_def the_cache_def map_of_map_entry map_of_put_entry
            map_add_def)
    then show False
      using pop base unchanged [of "snd (handleStaticRequest e1 rq s)"] by auto
  qed
qed

text \<open>
  C9. For a static-classified request that misses every cache: when its fetch replies
  with a 2xx status that the cache accepts, the first request stores the response in
  the static cache; and whenever the first request has populated the static cache with
  a response, it answered with that response, and a second identical request is
  answered with that same response, leaves the state as it is, and makes no network
  call, whatever the network would answer.
\<close>

theorem static_cache_first:
  assumes "classify (url rq) = Static"
    and "first_match (map snd (caches s)) (url rq) = None"
    and "\<not> fault e2 (OpMatchAny (url rq))"
  shows "(net e1 (req_method rq) (url rq) NoBody = Replied r \<and> ok r \<and> \<not> cache_refuses r \<and>
          \<not> fault e1 (OpMatchAny (url rq)) \<and> \<not> fault e1 (OpOpen CACHE_NAME) \<and>
          \<not> fault e1 (OpPut CACHE_NAME (url rq)) \<longrightarrow>
            map_of (the_cache (snd (respond e1 rq s)) CACHE_NAME) (url rq) = Some r) \<and>
         (map_of (the_cache (snd (respond e1 rq s)) CACHE_NAME) (url rq) = Some r \<longrightarrow>
            fst (respond e1 rq s) = Inr (Some r) \<and>
            respond e2 rq (snd (respond e1 rq s)) = (Inr (Some r), snd (respond e1 rq s)) \<and>
            net_calls (snd (respond e2 rq (snd (respond e1 rq s)))) =
              net_calls (snd (respond e1 rq s)))"
proof -
  have r1: "respond e rq t = (Inr (Some x), t') \<longleftrightarrow> handleStaticRequest e rq t = (Inr x, t')"
    for e t x t'
    using assms(1)
    by (cases "handleStaticRequest e rq t")
       (auto simp: respond_def bind_def ret_def split: sum.splits)
  have snd_eq: "snd (respond e rq t) = snd (handleStaticRequest e rq t)" for e t
    using assms(1)
    by (cases "handleStaticRequest e rq t")
       (auto simp: respond_def bind_def ret_def split: sum.splits)
  have a: "map_of (the_cache (snd (respond e1 rq s)) CACHE_NAME) (url rq) = Some r"
    if "net e1 (req_method rq) (url rq) NoBody = Replied r \<and> ok r \<and> \<not> cache_refuses r \<and>
          \<not> fault e1 (OpMatchAny (url rq)) \<and> \<not> fault e1 (OpOpen CACHE_NAME) \<and>
          \<not> fault e1 (OpPut CACHE_NAME (url rq))"
    using static_populating_request [of e1 rq s r e2] that assms(2,3) by (simp add: snd_eq)
  have b: "fst (respond e1 rq s) = Inr (Some r) \<and>
            respond e2 rq (snd (respond e1 rq s)) = (Inr (Some r), snd (respond e1 rq s)) \<and>
            net_calls (snd (respond e2 rq (snd (respond e1 rq s)))) =
              net_calls (snd (respond e1 rq s))"
    if pop: "map_of (the_cache (snd (respond e1 rq s)) CACHE_NAME) (url rq) = Some r"
  proof -
    from pop have "map_of (the_cache (snd (handleStaticRequest e1 rq s)) CACHE_NAME) (url rq) = Some r"
      by (simp add: snd_eq)
    from static_populated_only_by_write [OF assms(2) this]
    have h: "fst (handleStaticRequest e1 rq s) = Inr r"
        "handleStaticRequest e2 rq (snd (handleStaticRequest e1 rq s)) =
           (Inr r, snd (handleStaticRequest e1 rq s))"
      using static_populating_request [of e1 rq s r e2] assms(2,3) by auto
    have "respond e1 rq s = (Inr (Some r), snd (handleStaticRequest e1 rq s))"
      using h(1) by (subst r1) (simp add: prod_eq_iff)
    moreover have "respond e2 rq (snd (handleStaticRequest e1 rq s)) =
        (Inr (Some r), snd (handleStaticRequest e1 rq s))"
      using h(2) by (simp add: r1)
    ultimately show ?thesis by simp
  qed
  from a b show ?thesis by blast
qed

theorem api_write_through_witness:
  "fst (respond online_env ping_request fresh_state) = Inr (Some pong) \<and>
   map_of (the_cache (snd (respond online_env ping_request fresh_state)) DATA_CACHE_NAME)
     (url ping_request) = Some pong"
  using api_write_through [of ping_request online_env pong fresh_state]
  by (simp add: online_env_def offline_env_def ping_request_def pong_def ok_def
      cache_refuses_def headers_get_def
      classify_def isAPIRequest_def pattern_test_def API_CACHE_PATTERNS_def)

theorem api_never_hard_failure_witness:
  "fst (respond (offline_env 10000000) ping_request fresh_state) =
     Inr (Some (createOfflineFallback (offline_env 10000000) ping_request)) \<and>
   status (createOfflineFallback (offline_env 10000000) ping_request) = 200"
  using api_never_hard_failure [of ping_request "offline_env 10000000" fresh_state]
  by (simp add: offline_env_def ping_request_def fresh_state_def
      classify_def isAPIRequest_def pattern_test_def API_CACHE_PATTERNS_def)

theorem static_cache_first_witness:
  "respond (offline_env 20000000) icon_request
       (snd (respond online_env icon_request fresh_state)) =
     (Inr (Some pong), snd (respond online_env icon_request fresh_state)) \<and>
   net_calls (snd (respond (offline_env 20000000) icon_request
       (snd (respond online_env icon_request fresh_state)))) =
     net_calls (snd (respond online_env icon_request fresh_state))"
  using static_cache_first [where rq = icon_request and ?e1.0 = online_env
      and s = fresh_state and r = pong and ?e2.0 = "offline_env 20000000"]
  by (simp add: online_env_def offline_env_def icon_request_def pong_def ok_def fresh_state_def
      cache_refuses_def headers_get_def
      classify_def isAPIRequest_def isStaticAsset_def pattern_test_def API_CACHE_PATTERNS_def)

subsection \<open>Sync queue\<close>

lemmas sync_defs = syncTokenOutcomes_def syncAnalysisData_def getItem_def setItem_def
  parse_or_empty_def fetch_def console_log_def console_error_def

text \<open>
  C1 does not hold of the code. With one pending outcome and an endpoint whose POST
  rejects, \<open>syncTokenOutcomes\<close> logs the failure and then stores the empty list: the
  failed record is gone from the pending list.
\<close>

theorem sync_outcomes_drops_failed:
  "net (offline_env 10000000) ''POST'' ''/api/sync/outcomes''
      (JsonText (JObj [(''contractAddress'', JStr ''0xabc'')])) = Rejected \<and>
   map_of (localStorage pending_state) ''pendingOutcomes'' =
     Some (JArr [JObj [(''contractAddress'', JStr ''0xabc'')]]) \<and>
   map_of (localStorage (snd (syncTokenOutcomes (offline_env 10000000) pending_state)))
     ''pendingOutcomes'' = Some (JArr []) \<and>
   console (snd (syncTokenOutcomes (offline_env 10000000) pending_state)) =
     [Info ''[SW] Syncing token outcomes...'', Error ''[SW] Failed to sync outcome:'']"
  by (simp add: pending_state_def fresh_state_def offline_env_def sync_defs task_defs)

text \<open>
  The sibling \<open>syncAnalysisData\<close> leaves a record whose POST rejects as it was, and
  marks a record whose POST was answered with a 500 reply as synced.
\<close>

lemma sync_analysis_keeps_rejected:
  "map_of (localStorage (snd (syncAnalysisData (offline_env 10000000) pending_state)))
     ''memeAnalysisHistory'' = Some (JArr [JObj [(''contractAddress'', JStr ''0xabc'')]])"
  by (simp add: pending_state_def fresh_state_def offline_env_def sync_defs task_defs)

lemma sync_analysis_marks_http_error:
  "map_of (localStorage (snd (syncAnalysisData failing_endpoint_env pending_state)))
     ''memeAnalysisHistory'' =
     Some (JArr [JObj [(''contractAddress'', JStr ''0xabc''), (''synced'', JBool True)]])"
  by (simp add: pending_state_def fresh_state_def offline_env_def failing_endpoint_env_def
      sync_defs task_defs)

text \<open>Whatever the network does, \<open>syncTokenOutcomes\<close> ends with an empty pending list.\<close>

lemma outcomes_loop_local:
  "fst (outcomes_loop e xs s) = Inr () \<and>
   localStorage (snd (outcomes_loop e xs s)) = localStorage s"
proof (induction xs arbitrary: s)
  case Nil
  show ?case by (simp add: ret_def)
next
  case (Cons x xs)
  show ?case
    by (cases "net e ''POST'' ''/api/sync/outcomes'' (JsonText x)";
        cases "get_prop x ''contractAddress''")
       (simp_all add: task_defs fetch_def console_log_def console_error_def Cons.IH)
qed

lemma syncTokenOutcomes_clears:
  assumes "\<not> fault e (OpSetItem ''pendingOutcomes'')"
    and "map_of (localStorage s) ''pendingOutcomes'' = Some (JArr xs)"
  shows "map_of (localStorage (snd (syncTokenOutcomes e s))) ''pendingOutcomes'' = Some (JArr [])"
proof -
  let ?s0 = "s\<lparr>console := console s @ [Info ''[SW] Syncing token outcomes...'']\<rparr>"
  obtain s1 where l: "outcomes_loop e xs ?s0 = (Inr (), s1)" and ls: "localStorage s1 = localStorage s"
    using outcomes_loop_local [of e xs ?s0] by (cases "outcomes_loop e xs ?s0") auto
  show ?thesis
    using assms l ls
    by (simp add: sync_defs task_defs update_conv')
qed

subsection \<open>Install\<close>

lemma on_install_fulfils: "fst (on_install e s) = Inr ()"
  by (simp add: on_install_def bind_def try_catch_def console_log_def console_error_def
      split: prod.splits sum.splits)

text \<open>
  C2 (as amended). When populating the static cache fails (a fetch of a manifest URL
  rejects, or replies with a status that is not 2xx or with a reply the cache refuses,
  or the cache cannot be opened or written), the failure is caught and logged, nothing is added to the static cache,
  \<open>skipWaiting\<close> is not called, and the promise handed to \<open>waitUntil\<close> is fulfilled
  all the same: the platform is not told that the install step failed.
\<close>

theorem install_failure_caught:
  assumes "fault e (OpOpen CACHE_NAME) \<or> fault e (OpAddAll CACHE_NAME) \<or>
           \<not> list_all (\<lambda>u. replied_ok (net e ''GET'' u NoBody)) STATIC_CACHE_URLS"
  shows "fst (on_install e s) = Inr () \<and>
         the_cache (snd (on_install e s)) CACHE_NAME = the_cache s CACHE_NAME \<and>
         skip_waiting (snd (on_install e s)) = skip_waiting s \<and>
         last (console (snd (on_install e s))) = Error ''[SW] Failed to cache static assets:''"
proof -
  have "\<not> list_all (\<lambda>(u, r). replied_ok r) (map (\<lambda>u. (u, net e ''GET'' u NoBody)) STATIC_CACHE_URLS)
        \<longleftrightarrow> \<not> list_all (\<lambda>u. replied_ok (net e ''GET'' u NoBody)) STATIC_CACHE_URLS"
    by (simp add: list_all_iff)
  then show ?thesis
    using assms
    by (auto simp: on_install_def task_defs caches_open_def cache_addAll_def console_log_def
        console_error_def the_cache_def map_add_def Let_def split: option.splits)
qed

theorem install_failure_caught_witness:
  "fst (on_install (offline_env 10000000) fresh_state) = Inr () \<and>
   the_cache (snd (on_install (offline_env 10000000) fresh_state)) CACHE_NAME = [] \<and>
   skip_waiting (snd (on_install (offline_env 10000000) fresh_state)) = 0 \<and>
   last (console (snd (on_install (offline_env 10000000) fresh_state))) =
     Error ''[SW] Failed to cache static assets:''"
  using install_failure_caught [of "offline_env 10000000" fresh_state]
  by (simp add: offline_env_def fresh_state_def STATIC_CACHE_URLS_def the_cache_def)

text \<open>
  C2 as stated fails: with the network down no manifest URL can be fetched, and the
  promise of the install step is fulfilled, not rejected.
\<close>

theorem install_fulfils_counterexample:
  "\<not> replied_ok (net (offline_env 10000000) ''GET'' ''/index.html'' NoBody) \<and>
   ''/index.html'' \<in> set STATIC_CACHE_URLS \<and>
   fst (on_install (offline_env 10000000) fresh_state) = Inr ()"
  by (simp add: offline_env_def STATIC_CACHE_URLS_def on_install_fulfils)

subsection \<open>Control channel\<close>

lemma queueOutcomeSync_completes: "fst (queueOutcomeSync e d s) = Inr ()"
  by (simp add: queueOutcomeSync_def try_catch_def console_error_def
      split: prod.splits sum.splits)

lemma detach_completes: "fst (detach m s) = Inr ()"
  by (simp add: detach_def split: prod.splits sum.splits)

text \<open>
  For every message whose payload is neither \<open>null\<close> nor \<open>undefined\<close> the listener
  completes without throwing, in every environment; and when the action tag is missing
  or is none of the four known tags, the listener only writes one log line and changes
  nothing else.
\<close>

lemma message_object_payload_completes:
  assumes "data ev \<noteq> JNull" and "data ev \<noteq> JUndefined"
  shows "fst (on_message e ev s) = Inr () \<and>
         (get_prop (data ev) ''action'' \<notin>
            Inr ` {JStr ''SKIP_WAITING'', JStr ''CACHE_ANALYSIS'', JStr ''QUEUE_OUTCOME'',
                   JStr ''GET_CACHE_INFO''} \<longrightarrow>
          on_message e ev s =
            (Inr (), s\<lparr>console := console s @ [Info ''[SW] Unknown message action:'']\<rparr>))"
proof -
  obtain a p where a: "get_prop (data ev) ''action'' = Inr a"
    and p: "get_prop (data ev) ''data'' = Inr p"
    using assms by (cases "data ev") auto
  have 1: "fst (on_message e ev s) = Inr ()"
    using a p
    by (simp add: on_message_def task_defs queueOutcomeSync_completes detach_completes
        console_log_def)
  have 2: "on_message e ev s =
            (Inr (), s\<lparr>console := console s @ [Info ''[SW] Unknown message action:'']\<rparr>)"
    if "get_prop (data ev) ''action'' \<notin>
            Inr ` {JStr ''SKIP_WAITING'', JStr ''CACHE_ANALYSIS'', JStr ''QUEUE_OUTCOME'',
                   JStr ''GET_CACHE_INFO''}"
    using a p that
    by (auto simp: on_message_def task_defs console_log_def)
  from 1 2 show ?thesis by blast
qed

lemma message_unknown_action_logged:
  "on_message (offline_env 10000000) \<lparr>data = JObj [(''action'', JStr ''PING'')], ports = 0\<rparr>
      fresh_state =
     (Inr (), fresh_state\<lparr>console := [Info ''[SW] Unknown message action:'']\<rparr>) \<and>
   on_message (offline_env 10000000) \<lparr>data = JObj [], ports = 0\<rparr> fresh_state =
     (Inr (), fresh_state\<lparr>console := [Info ''[SW] Unknown message action:'']\<rparr>)"
  using message_object_payload_completes [of "\<lparr>data = JObj [(''action'', JStr ''PING'')], ports = 0\<rparr>"
      "offline_env 10000000" fresh_state]
    message_object_payload_completes [of "\<lparr>data = JObj [], ports = 0\<rparr>"
      "offline_env 10000000" fresh_state]
  by (simp add: fresh_state_def)

text \<open>
  C7 does not hold of the code. A message whose payload is \<open>null\<close> or \<open>undefined\<close> has
  no action tag, and the listener does not log and ignore it: in every environment and
  every state it throws a \<open>TypeError\<close> at the destructuring of \<open>event.data\<close>, with
  nothing logged and nothing else changed.
\<close>

theorem message_null_payload_throws:
  "on_message e \<lparr>data = JNull, ports = n\<rparr> s = (Inl TypeError, s) \<and>
   on_message e \<lparr>data = JUndefined, ports = n\<rparr> s = (Inl TypeError, s)"
  by (simp add: on_message_def task_defs)

end
